theory Spec2Isabelle
  imports Main
begin

section \<open>Common notions\<close>

text \<open>
  DOM elements and JavaScript arrays are objects with identity: the code compares them with
  \<^verbatim>\<open>!==\<close> and mutates them through references. They live in stores indexed by a
  reference; lists of references stand for JavaScript arrays of objects.
\<close>

type_synonym ref = nat

text \<open>
  What a call can end with besides a value: a \<^verbatim>\<open>TypeError\<close> of the runtime (a property read
  on \<^verbatim>\<open>null\<close> or \<^verbatim>\<open>undefined\<close>, \<^verbatim>\<open>instanceof\<close> on a non-callable), an
  \<^verbatim>\<open>Error\<close> thrown by the code with its message, and the exhaustion of the re-entrancy
  budget of the model (see the checkbox group below).
\<close>

datatype error = TypeError | Error string | FuelExhausted

text \<open>Decimal digits of a number, as a template literal \<^verbatim>\<open>`${n}`\<close> prints a non-negative integer.\<close>

definition digit_char :: "nat \<Rightarrow> char" where
  "digit_char d = ''0123456789'' ! d"

fun show_nat :: "nat \<Rightarrow> string" where
  "show_nat n = (if n < 10 then [digit_char n] else show_nat (n div 10) @ [digit_char (n mod 10)])"

declare show_nat.simps [simp del]

section \<open>Tab sheet: \<^verbatim>\<open>vaadin-tabsheet-mixin.js\<close>\<close>

subsection \<open>Data\<close>

text \<open>
  The properties and attributes of a tab or panel element that the mixin reads or writes:
  \<^verbatim>\<open>id\<close> (the empty string when there is none), \<^verbatim>\<open>getAttribute('tab')\<close> (\<open>None\<close> for
  \<^verbatim>\<open>null\<close>), \<^verbatim>\<open>hidden\<close>, \<^verbatim>\<open>role\<close>, \<^verbatim>\<open>aria-labelledby\<close> and \<^verbatim>\<open>aria-controls\<close>.
\<close>

record element =
  el_id :: string
  tab_attr :: "string option"
  el_hidden :: bool
  el_role :: "string option"
  aria_labelledby :: "string option"
  aria_controls :: "string option"

text \<open>
  The value of \<^verbatim>\<open>selected\<close>: \<^verbatim>\<open>undefined\<close>, an integer, or any other value that is the index
  of no array slot (\<^verbatim>\<open>null\<close>, \<^verbatim>\<open>NaN\<close>, a fraction), named by its printed form so that two
  of them are equal exactly when they print alike.
\<close>

datatype selected_val = SelUndefined | SelNumber int | SelOther string

text \<open>
  A node that can be handed to the controller of the \<^verbatim>\<open>tabs\<close> slot: the classes it is an
  instance of, its \<^verbatim>\<open>items\<close> and \<^verbatim>\<open>selected\<close> properties, its \<^verbatim>\<open>theme\<close> attribute
  (\<open>None\<close> when it has none), and whether the controller's two listeners are attached to it.
\<close>

record slot_node =
  node_classes :: "string list"
  node_items :: "ref list option"
  node_selected :: selected_val
  node_theme :: "string option"
  items_changed_listener :: bool
  selected_changed_listener :: bool

text \<open>
  The host with its controller: the element store and the store of slot nodes; the properties
  \<^verbatim>\<open>items\<close>, \<^verbatim>\<open>selected\<close>, \<^verbatim>\<open>theme\<close> (\<open>None\<close> when undefined), \<^verbatim>\<open>__panels\<close>,
  \<^verbatim>\<open>__tabs\<close>, \<^verbatim>\<open>stateTarget\<close> and the controller's \<^verbatim>\<open>tabs\<close>, the last three holding a
  reference to a slot node or nothing; the \<^verbatim>\<open>loading\<close> attribute, \<^verbatim>\<open>style.minHeight\<close> and
  \<^verbatim>\<open>offsetHeight\<close> of the content part, and the counter behind \<^verbatim>\<open>generateUniqueId\<close>.
\<close>

record tabsheet =
  elements :: "ref \<Rightarrow> element"
  tabs_nodes :: "ref \<Rightarrow> slot_node"
  ts_items :: "ref list option"
  ts_selected :: selected_val
  ts_theme :: "string option"
  ts_panels :: "ref list option"
  ts_tabs :: "ref option"
  ts_stateTarget :: "ref option"
  controller_tabs :: "ref option"
  loading :: bool
  content_minHeight :: string
  content_offsetHeight :: nat
  unique_id :: nat

subsection \<open>The visibility observer\<close>

text \<open>\<^verbatim>\<open>items[selected]\<close>: the element at the index, \<open>None\<close> for \<^verbatim>\<open>undefined\<close>.\<close>

definition item_at :: "ref list \<Rightarrow> selected_val \<Rightarrow> ref option" where
  "item_at items sel =
     (case sel of
        SelNumber i \<Rightarrow> (if 0 \<le> i \<and> i < int (length items) then Some (items ! nat i) else None)
      | _ \<Rightarrow> None)"

text \<open>\<^verbatim>\<open>panel.hidden = panel !== selectedPanel\<close> for one panel.\<close>

definition set_hidden :: "ref option \<Rightarrow> ref \<Rightarrow> tabsheet \<Rightarrow> tabsheet" where
  "set_hidden selectedPanel panel ts =
     ts\<lparr>elements := (elements ts)(panel := (elements ts panel)\<lparr>el_hidden := (Some panel \<noteq> selectedPanel)\<rparr>)\<rparr>"

text \<open>
  \<^verbatim>\<open>__selectedTabItemChanged(selected, items, panels)\<close>. The first guard returns with the host
  untouched; \<open>None\<close> stands for a falsy \<^verbatim>\<open>items\<close> or \<^verbatim>\<open>panels\<close>.
\<close>

definition selectedTabItemChanged ::
  "selected_val \<Rightarrow> ref list option \<Rightarrow> ref list option \<Rightarrow> tabsheet \<Rightarrow> tabsheet" where
  "selectedTabItemChanged selected its pans ts =
     (case (its, pans) of
        (Some items, Some panels) \<Rightarrow>
          if selected = SelUndefined then ts
          else
            let selectedTab = item_at items selected;
                selectedTabId = (case selectedTab of Some t \<Rightarrow> el_id (elements ts t) | None \<Rightarrow> '''');
                selectedPanel = find (\<lambda>panel. tab_attr (elements ts panel) = Some selectedTabId) panels;
                ts1 = ts\<lparr>loading := (selectedPanel = None)\<rparr>;
                hasOneVisiblePanel =
                  (length (filter (\<lambda>panel. \<not> el_hidden (elements ts1 panel)) panels) = 1);
                ts2 = (if selectedPanel \<noteq> None then ts1\<lparr>content_minHeight := ''''\<rparr>
                       else if hasOneVisiblePanel
                         then ts1\<lparr>content_minHeight := show_nat (content_offsetHeight ts1) @ ''px''\<rparr>
                       else ts1)
            in fold (set_hidden selectedPanel) panels ts2
      | _ \<Rightarrow> ts)"

subsection \<open>The accessibility observer\<close>

text \<open>
  Modelled from the spec: \<^verbatim>\<open>generateUniqueId\<close> of the component base is not part of the
  sources at hand; the spec has it "assign a generated stable identifier to the panel if
  absent". It is a counter: the call returns its value and advances it.
\<close>

definition generateUniqueId :: "tabsheet \<Rightarrow> nat \<times> tabsheet" where
  "generateUniqueId ts = (unique_id ts, ts\<lparr>unique_id := Suc (unique_id ts)\<rparr>)"

text \<open>The body of the \<^verbatim>\<open>items.forEach\<close> of \<^verbatim>\<open>__itemsOrPanelsChanged\<close> for one tab.\<close>

definition link_tab :: "ref list \<Rightarrow> ref \<Rightarrow> tabsheet \<Rightarrow> tabsheet" where
  "link_tab panels tabItem ts =
     (case find (\<lambda>panel. tab_attr (elements ts panel) = Some (el_id (elements ts tabItem))) panels of
        None \<Rightarrow> ts
      | Some panel \<Rightarrow>
          let ts1 = ts\<lparr>elements := (elements ts)(panel := (elements ts panel)\<lparr>el_role := Some ''tabpanel''\<rparr>)\<rparr>;
              ts2 = (if el_id (elements ts1 panel) = ''''
                     then (case generateUniqueId ts1 of
                             (n, ts') \<Rightarrow>
                               ts'\<lparr>elements := (elements ts')(panel :=
                                     (elements ts' panel)\<lparr>el_id := ''tabsheet-panel-'' @ show_nat n\<rparr>)\<rparr>)
                     else ts1);
              ts3 = ts2\<lparr>elements := (elements ts2)(panel :=
                          (elements ts2 panel)\<lparr>aria_labelledby := Some (el_id (elements ts2 tabItem))\<rparr>)\<rparr>
          in ts3\<lparr>elements := (elements ts3)(tabItem :=
                    (elements ts3 tabItem)\<lparr>aria_controls := Some (el_id (elements ts3 panel))\<rparr>)\<rparr>)"

text \<open>\<^verbatim>\<open>__itemsOrPanelsChanged(items, panels)\<close>.\<close>

definition itemsOrPanelsChanged :: "ref list option \<Rightarrow> ref list option \<Rightarrow> tabsheet \<Rightarrow> tabsheet" where
  "itemsOrPanelsChanged its pans ts =
     (case (its, pans) of
        (Some items, Some panels) \<Rightarrow> fold (link_tab panels) items ts
      | _ \<Rightarrow> ts)"

subsection \<open>The controller of the \<^verbatim>\<open>tabs\<close> slot\<close>

text \<open>
  \<^verbatim>\<open>host._setItems(items)\<close>, the setter the framework generates for the read-only property:
  it stores the array and runs the observers that depend on \<^verbatim>\<open>items\<close>, in the order of
  \<^verbatim>\<open>static get observers\<close>, with the current values of the other properties. The array
  handed over is taken to be another object than the stored one.
\<close>

definition setItems :: "ref list option \<Rightarrow> tabsheet \<Rightarrow> tabsheet" where
  "setItems its ts =
     (let ts1 = ts\<lparr>ts_items := its\<rparr>;
          ts2 = itemsOrPanelsChanged (ts_items ts1) (ts_panels ts1) ts1
      in selectedTabItemChanged (ts_selected ts2) (ts_items ts2) (ts_panels ts2) ts2)"

text \<open>
  \<^verbatim>\<open>node instanceof cls\<close>, where \<open>cls\<close> is what \<^verbatim>\<open>customElements.get\<close> returned: a
  \<^verbatim>\<open>TypeError\<close> when no class is registered under the name.
\<close>

definition instanceof :: "slot_node \<Rightarrow> string option \<Rightarrow> error + bool" where
  "instanceof node cls = (case cls of None \<Rightarrow> Inl TypeError | Some c \<Rightarrow> Inr (c \<in> set (node_classes node)))"

text \<open>
  \<^verbatim>\<open>__tabsItemsChangedListener()\<close>: \<^verbatim>\<open>this.host._setItems(this.tabs.items)\<close>; reading
  \<^verbatim>\<open>items\<close> of a null \<^verbatim>\<open>this.tabs\<close> throws.
\<close>

definition tabsItemsChangedListener :: "tabsheet \<Rightarrow> error + tabsheet" where
  "tabsItemsChangedListener ts =
     (case controller_tabs ts of
        None \<Rightarrow> Inl TypeError
      | Some t \<Rightarrow> Inr (setItems (node_items (tabs_nodes ts t)) ts))"

text \<open>
  An assignment to the host's \<^verbatim>\<open>selected\<close> is handed on to the slotted tabs element, whose
  change of \<^verbatim>\<open>selected\<close> notifies \<^verbatim>\<open>__tabsSelectedChangedListener\<close>, which assigns the
  host's \<^verbatim>\<open>selected\<close> again. The functions below take that assignment as their first argument
  \<open>assign\<close>; \<open>set_selected\<close> closes the loop, with a budget for the depth of re-entrant
  assignments.
\<close>

text \<open>\<^verbatim>\<open>__tabsSelectedChangedListener()\<close>: \<^verbatim>\<open>this.host.selected = this.tabs.selected\<close>.\<close>

definition tabsSelectedChangedListener ::
  "(selected_val \<Rightarrow> tabsheet \<Rightarrow> error + tabsheet) \<Rightarrow> tabsheet \<Rightarrow> error + tabsheet" where
  "tabsSelectedChangedListener assign ts =
     (case controller_tabs ts of
        None \<Rightarrow> Inl TypeError
      | Some t \<Rightarrow> assign (node_selected (tabs_nodes ts t)) ts)"

text \<open>
  Modelled from the spec: the tabs element is not part of the sources at hand. By the spec a
  write of \<^verbatim>\<open>selected\<close> fires a change notification; the source attaches
  \<^verbatim>\<open>__tabsSelectedChangedListener\<close> to the element for it. So \<^verbatim>\<open>tabs.selected = v\<close> does
  nothing when the property already is \<open>v\<close>, and otherwise stores it and notifies the listener
  if attached. An exception thrown inside an event listener is reported by the platform and
  does not reach the code that made the assignment; the listener can only throw on its read
  of \<^verbatim>\<open>this.tabs\<close>, before it changed anything.
\<close>

definition set_tabs_selected ::
  "(selected_val \<Rightarrow> tabsheet \<Rightarrow> error + tabsheet) \<Rightarrow> ref \<Rightarrow> selected_val \<Rightarrow> tabsheet \<Rightarrow> error + tabsheet" where
  "set_tabs_selected assign t v ts =
     (if node_selected (tabs_nodes ts t) = v then Inr ts
      else
        let ts' = ts\<lparr>tabs_nodes := (tabs_nodes ts)(t := (tabs_nodes ts t)\<lparr>node_selected := v\<rparr>)\<rparr>
        in if selected_changed_listener (tabs_nodes ts' t)
           then (case tabsSelectedChangedListener assign ts' of
                   Inl FuelExhausted \<Rightarrow> Inl FuelExhausted
                 | Inl e \<Rightarrow> Inr ts'
                 | Inr ts'' \<Rightarrow> Inr ts'')
           else Inr ts')"

text \<open>
  Modelled from the spec: the state delegation mixin is not part of the sources at hand. The
  source names what the host delegates, \<^verbatim>\<open>delegateProps\<close> \<open>selected\<close> and \<^verbatim>\<open>delegateAttrs\<close>
  \<open>theme\<close>, and the spec has the theme attribute "propagated to the projected tabs host".
  Delegating an attribute sets it on the state target when the host's value is a non-empty
  string and removes it otherwise; delegating the property assigns the host's value to the
  target's property of the same name. Without a state target neither does anything.
\<close>

definition delegateAttribute :: "string option \<Rightarrow> tabsheet \<Rightarrow> tabsheet" where
  "delegateAttribute v ts =
     (case ts_stateTarget ts of
        None \<Rightarrow> ts
      | Some t \<Rightarrow>
          ts\<lparr>tabs_nodes := (tabs_nodes ts)(t := (tabs_nodes ts t)\<lparr>node_theme :=
                (case v of None \<Rightarrow> None | Some s \<Rightarrow> if s = [] then None else Some s)\<rparr>)\<rparr>)"

definition delegateProperty ::
  "(selected_val \<Rightarrow> tabsheet \<Rightarrow> error + tabsheet) \<Rightarrow> selected_val \<Rightarrow> tabsheet \<Rightarrow> error + tabsheet" where
  "delegateProperty assign v ts =
     (case ts_stateTarget ts of
        None \<Rightarrow> Inr ts
      | Some t \<Rightarrow> set_tabs_selected assign t v ts)"

text \<open>
  Modelled from the spec: the property system of the component framework is not part of the
  sources at hand. By the spec a write of \<^verbatim>\<open>selected\<close> fires a change notification and the
  presentation is "recomputed on every relevant change". Assigning the value the property
  already holds does nothing; any other assignment stores the value, runs the observer of
  the source that depends on \<^verbatim>\<open>selected\<close>, and delegates the property. The first argument
  bounds the depth of assignments made from within; when it is used up the result is
  \<open>FuelExhausted\<close>.
\<close>

primrec set_selected :: "nat \<Rightarrow> selected_val \<Rightarrow> tabsheet \<Rightarrow> error + tabsheet" where
  "set_selected 0 = (\<lambda>v ts. if v = ts_selected ts then Inr ts else Inl FuelExhausted)"
| "set_selected (Suc n) = (\<lambda>v ts.
     if v = ts_selected ts then Inr ts
     else
       let ts1 = ts\<lparr>ts_selected := v\<rparr>;
           ts2 = selectedTabItemChanged (ts_selected ts1) (ts_items ts1) (ts_panels ts1) ts1
       in delegateProperty (set_selected n) (ts_selected ts2) ts2)"

text \<open>
  \<^verbatim>\<open>this.host.stateTarget = tabs\<close>. Modelled from the spec, as the mixin above: assigning
  the node the property already holds does nothing; otherwise the node is stored and, the
  target being there, the delegated attribute and the delegated property are handed to it.
\<close>

definition set_stateTarget :: "nat \<Rightarrow> ref \<Rightarrow> tabsheet \<Rightarrow> error + tabsheet" where
  "set_stateTarget n t ts =
     (if ts_stateTarget ts = Some t then Inr ts
      else
        let ts1 = ts\<lparr>ts_stateTarget := Some t\<rparr>;
            ts2 = delegateAttribute (ts_theme ts1) ts1
        in delegateProperty (set_selected n) (ts_selected ts2) ts2)"

text \<open>
  \<^verbatim>\<open>TabsSlotController.initCustomNode(tabs)\<close>, statement by statement; \<open>customElements_get\<close>
  is the registry of custom elements, \<open>tabs\<close> the reference of the node, and \<open>n\<close> the budget
  for assignments of the host's \<^verbatim>\<open>selected\<close>.
\<close>

definition tabs_slot_message :: string where
  \<open>tabs_slot_message = ''The "tabs" slot of a <vaadin-tabsheet> must only contain a <vaadin-tabs> element!''\<close>

definition initCustomNode ::
  "nat \<Rightarrow> (string \<Rightarrow> string option) \<Rightarrow> ref \<Rightarrow> tabsheet \<Rightarrow> error + tabsheet" where
  "initCustomNode n customElements_get tabs ts =
     (case instanceof (tabs_nodes ts tabs) (customElements_get ''vaadin-tabs'') of
        Inl e \<Rightarrow> Inl e
      | Inr is_tabs \<Rightarrow>
          if \<not> is_tabs
          then Inl (Error tabs_slot_message)
          else
            let ts1 = ts\<lparr>controller_tabs := Some tabs\<rparr>;
                ts2 = ts1\<lparr>tabs_nodes := (tabs_nodes ts1)(tabs := (tabs_nodes ts1 tabs)
                         \<lparr>items_changed_listener := True, selected_changed_listener := True\<rparr>)\<rparr>;
                ts3 = ts2\<lparr>ts_tabs := Some tabs\<rparr>
            in case set_stateTarget n tabs ts3 of
                 Inl e \<Rightarrow> Inl e
               | Inr ts4 \<Rightarrow> tabsItemsChangedListener ts4)"

section \<open>Checkbox group: \<^verbatim>\<open>vaadin-checkbox-group.js\<close>\<close>

subsection \<open>Data\<close>

text \<open>
  What the \<^verbatim>\<open>value\<close> property can hold: \<^verbatim>\<open>undefined\<close>, \<^verbatim>\<open>null\<close>, or a reference to an
  array of strings in the array store.
\<close>

datatype js_value = Undefined | Null | Array ref

text \<open>
  A child node: whether it is an instance of \<^verbatim>\<open>Checkbox\<close>, its \<^verbatim>\<open>value\<close> property (the empty
  string is the falsy one), \<^verbatim>\<open>hasAttribute('value')\<close>, \<^verbatim>\<open>checked\<close>, \<^verbatim>\<open>disabled\<close>, and
  whether the group's \<^verbatim>\<open>checked-changed\<close> listener is attached.
\<close>

record checkbox_node =
  is_checkbox :: bool
  cb_value :: string
  has_value_attr :: bool
  cb_checked :: bool
  cb_disabled :: bool
  checked_changed_listener :: bool

text \<open>
  The group: \<^verbatim>\<open>required\<close>, \<^verbatim>\<open>disabled\<close>, \<^verbatim>\<open>value\<close>; the array store with its allocation
  pointer; the node store and \<^verbatim>\<open>this.children\<close>; the \<^verbatim>\<open>has-value\<close> attribute, \<^verbatim>\<open>invalid\<close>,
  the ARIA targets given to the tooltip controller, the lines written with
  \<^verbatim>\<open>console.warn\<close>, and the number of \<^verbatim>\<open>value-changed\<close> notifications fired.
\<close>

record group =
  required :: bool
  grp_disabled :: bool
  grp_value :: js_value
  arrays :: "ref \<Rightarrow> string list"
  next_array :: ref
  nodes :: "ref \<Rightarrow> checkbox_node"
  children :: "ref list"
  has_value :: bool
  invalid :: bool
  aria_targets :: "ref list"
  console :: "string list"
  value_changed_events :: nat

text \<open>An array literal or \<^verbatim>\<open>filter\<close> result: a new object at the allocation pointer.\<close>

definition new_array :: "string list \<Rightarrow> group \<Rightarrow> ref \<times> group" where
  "new_array xs g =
     (next_array g, g\<lparr>arrays := (arrays g)(next_array g := xs), next_array := Suc (next_array g)\<rparr>)"

subsection \<open>Validation\<close>

text \<open>\<^verbatim>\<open>__filterCheckboxes(nodes)\<close> and the getter \<^verbatim>\<open>__checkboxes\<close>.\<close>

definition filterCheckboxes :: "group \<Rightarrow> ref list \<Rightarrow> ref list" where
  "filterCheckboxes g ns = filter (\<lambda>child. is_checkbox (nodes g child)) ns"

definition checkboxes :: "group \<Rightarrow> ref list" where
  "checkboxes g = filterCheckboxes g (children g)"

text \<open>
  \<^verbatim>\<open>checkValidity()\<close>: \<^verbatim>\<open>!this.required || this.value.length > 0\<close>; the right operand is
  evaluated only for a required group, and reading \<^verbatim>\<open>length\<close> of \<^verbatim>\<open>null\<close> or
  \<^verbatim>\<open>undefined\<close> throws.
\<close>

definition checkValidity :: "group \<Rightarrow> error + bool" where
  "checkValidity g =
     (if \<not> required g then Inr True
      else case grp_value g of
             Array r \<Rightarrow> Inr (0 < length (arrays g r))
           | _ \<Rightarrow> Inl TypeError)"

text \<open>
  Modelled from the spec: \<^verbatim>\<open>validate()\<close> comes from the field base, which is not part of the
  sources at hand. By the spec a constraint violation is "surfaced via the standard
  validity/validation API, not an exception; the widget enters an invalid presentation
  state": the result of \<^verbatim>\<open>checkValidity()\<close> decides \<^verbatim>\<open>invalid\<close>.
\<close>

definition validate :: "group \<Rightarrow> error + group" where
  "validate g =
     (case checkValidity g of
        Inl e \<Rightarrow> Inl e
      | Inr isValid \<Rightarrow> Inr (g\<lparr>invalid := \<not> isValid\<rparr>))"

subsection \<open>The value mutators and the feedback loop\<close>

text \<open>
  An assignment \<^verbatim>\<open>this.value = v\<close> runs the observer \<^verbatim>\<open>__valueChanged\<close>, which assigns
  \<^verbatim>\<open>checked\<close> on the checkboxes, which notifies \<^verbatim>\<open>__onCheckboxCheckedChanged\<close>, which calls
  the mutators, which may assign \<^verbatim>\<open>this.value\<close> again. The functions below take the
  assignment as their first argument \<open>assign\<close>; \<open>set_value\<close> at the end closes the loop,
  with a budget for the depth of re-entrant assignments.
\<close>

text \<open>\<^verbatim>\<open>__addCheckboxToValue(value)\<close>; \<^verbatim>\<open>this.value.includes\<close> throws on \<^verbatim>\<open>null\<close> and \<^verbatim>\<open>undefined\<close>.\<close>

definition addCheckboxToValue ::
  "(js_value \<Rightarrow> group \<Rightarrow> error + group) \<Rightarrow> string \<Rightarrow> group \<Rightarrow> error + group" where
  "addCheckboxToValue assign v g =
     (case grp_value g of
        Array r \<Rightarrow>
          if v \<notin> set (arrays g r)
          then (case new_array (arrays g r @ [v]) g of (a, g') \<Rightarrow> assign (Array a) g')
          else Inr g
      | _ \<Rightarrow> Inl TypeError)"

text \<open>\<^verbatim>\<open>__removeCheckboxFromValue(value)\<close>.\<close>

definition removeCheckboxFromValue ::
  "(js_value \<Rightarrow> group \<Rightarrow> error + group) \<Rightarrow> string \<Rightarrow> group \<Rightarrow> error + group" where
  "removeCheckboxFromValue assign v g =
     (case grp_value g of
        Array r \<Rightarrow>
          if v \<in> set (arrays g r)
          then (case new_array (filter (\<lambda>u. u \<noteq> v) (arrays g r)) g of (a, g') \<Rightarrow> assign (Array a) g')
          else Inr g
      | _ \<Rightarrow> Inl TypeError)"

text \<open>\<^verbatim>\<open>__onCheckboxCheckedChanged(event)\<close>, with \<^verbatim>\<open>event.target\<close> the checkbox.\<close>

definition onCheckboxCheckedChanged ::
  "(js_value \<Rightarrow> group \<Rightarrow> error + group) \<Rightarrow> ref \<Rightarrow> group \<Rightarrow> error + group" where
  "onCheckboxCheckedChanged assign checkbox g =
     (if cb_checked (nodes g checkbox)
      then addCheckboxToValue assign (cb_value (nodes g checkbox)) g
      else removeCheckboxFromValue assign (cb_value (nodes g checkbox)) g)"

text \<open>
  Modelled from the spec: the \<^verbatim>\<open>Checkbox\<close> element is not part of the sources at hand. By the
  spec the group attaches "a per-child state-change listener on register", a child's change of
  its checked state "must feed back into Selection Model", and "setting checked to a value it
  already has must not re-trigger the feedback loop". So \<^verbatim>\<open>checkbox.checked = b\<close> does
  nothing when the flag already is \<open>b\<close>, and otherwise stores it and notifies the group's
  listener if attached. An exception thrown inside an event listener is reported by the
  platform and does not reach the code that made the assignment; the listener can only throw
  on its first read of \<^verbatim>\<open>this.value\<close>, before it changed anything.
\<close>

definition set_checked ::
  "(js_value \<Rightarrow> group \<Rightarrow> error + group) \<Rightarrow> ref \<Rightarrow> bool \<Rightarrow> group \<Rightarrow> error + group" where
  "set_checked assign checkbox b g =
     (if cb_checked (nodes g checkbox) = b then Inr g
      else
        let g' = g\<lparr>nodes := (nodes g)(checkbox := (nodes g checkbox)\<lparr>cb_checked := b\<rparr>)\<rparr>
        in if checked_changed_listener (nodes g' checkbox)
           then (case onCheckboxCheckedChanged assign checkbox g' of
                   Inl FuelExhausted \<Rightarrow> Inl FuelExhausted
                 | Inl e \<Rightarrow> Inr g'
                 | Inr g'' \<Rightarrow> Inr g'')
           else Inr g')"

text \<open>
  The loop of \<^verbatim>\<open>__valueChanged\<close>: \<^verbatim>\<open>checkbox.checked = value.includes(checkbox.value)\<close> for
  each checkbox in turn, \<open>r\<close> being the array passed as \<^verbatim>\<open>value\<close>.
\<close>

fun sync_checkboxes ::
  "(js_value \<Rightarrow> group \<Rightarrow> error + group) \<Rightarrow> ref \<Rightarrow> ref list \<Rightarrow> group \<Rightarrow> error + group" where
  "sync_checkboxes assign r [] g = Inr g"
| "sync_checkboxes assign r (checkbox # rest) g =
     (case set_checked assign checkbox (cb_value (nodes g checkbox) \<in> set (arrays g r)) g of
        Inl e \<Rightarrow> Inl e
      | Inr g' \<Rightarrow> sync_checkboxes assign r rest g')"

text \<open>\<^verbatim>\<open>__valueChanged(value, oldValue)\<close>; \<^verbatim>\<open>value.length\<close> throws on \<^verbatim>\<open>null\<close> and \<^verbatim>\<open>undefined\<close>.\<close>

definition valueChanged ::
  "(js_value \<Rightarrow> group \<Rightarrow> error + group) \<Rightarrow> js_value \<Rightarrow> js_value \<Rightarrow> group \<Rightarrow> error + group" where
  "valueChanged assign val oldValue g =
     (case val of
        Array r \<Rightarrow>
          if length (arrays g r) = 0 \<and> oldValue = Undefined then Inr g
          else
            (case sync_checkboxes assign r (checkboxes g) (g\<lparr>has_value := (0 < length (arrays g r))\<rparr>) of
               Inl e \<Rightarrow> Inl e
             | Inr g' \<Rightarrow> if oldValue \<noteq> Undefined then validate g' else Inr g')
      | _ \<Rightarrow> Inl TypeError)"

text \<open>
  The node store after that loop when every checkbox of the group takes the membership of
  its value in \<open>ys\<close> as its flag.
\<close>

abbreviation synced_nodes :: "group \<Rightarrow> string list \<Rightarrow> ref \<Rightarrow> checkbox_node" where
  "synced_nodes g ys \<equiv>
     (\<lambda>c. if c \<in> set (checkboxes g) then (nodes g c)\<lparr>cb_checked := (cb_value (nodes g c) \<in> set ys)\<rparr>
          else nodes g c)"

text \<open>
  Modelled from the spec: the property system of the component framework is not part of the
  sources at hand. By the spec a write of \<^verbatim>\<open>value\<close> fires a change notification and observers
  "rely on reference-identity change detection": assigning the object the property already
  holds does nothing; any other assignment stores the new value, runs the observer declared
  for the property with the new and the old value, and fires \<^verbatim>\<open>value-changed\<close>. The first
  argument bounds the depth of assignments made from within the observer; when it is used up
  the result is \<open>FuelExhausted\<close>.
\<close>

primrec set_value :: "nat \<Rightarrow> js_value \<Rightarrow> group \<Rightarrow> error + group" where
  "set_value 0 = (\<lambda>v g. if v = grp_value g then Inr g else Inl FuelExhausted)"
| "set_value (Suc n) = (\<lambda>v g.
     if v = grp_value g then Inr g
     else case valueChanged (set_value n) v (grp_value g) (g\<lparr>grp_value := v\<rparr>) of
            Inl e \<Rightarrow> Inl e
          | Inr g' \<Rightarrow> Inr (g'\<lparr>value_changed_events := Suc (value_changed_events g')\<rparr>))"

subsection \<open>Registration\<close>

text \<open>\<^verbatim>\<open>__registerCheckbox(checkbox)\<close>, with budget \<open>n\<close> for the assignments of \<^verbatim>\<open>value\<close>.\<close>

definition registerCheckbox :: "nat \<Rightarrow> ref \<Rightarrow> group \<Rightarrow> error + group" where
  "registerCheckbox n checkbox g =
     (let g1 = g\<lparr>nodes := (nodes g)(checkbox := (nodes g checkbox)\<lparr>checked_changed_listener := True\<rparr>)\<rparr>;
          g2 = (if grp_disabled g1
                then g1\<lparr>nodes := (nodes g1)(checkbox := (nodes g1 checkbox)\<lparr>cb_disabled := True\<rparr>)\<rparr>
                else g1)
      in if cb_checked (nodes g2 checkbox)
         then addCheckboxToValue (set_value n) (cb_value (nodes g2 checkbox)) g2
         else (case grp_value g2 of
                 Array r \<Rightarrow>
                   if cb_value (nodes g2 checkbox) \<in> set (arrays g2 r)
                   then set_checked (set_value n) checkbox True g2
                   else Inr g2
               | _ \<Rightarrow> Inl TypeError))"

text \<open>\<^verbatim>\<open>__unregisterCheckbox(checkbox)\<close>.\<close>

definition unregisterCheckbox :: "nat \<Rightarrow> ref \<Rightarrow> group \<Rightarrow> error + group" where
  "unregisterCheckbox n checkbox g =
     (let g1 = g\<lparr>nodes := (nodes g)(checkbox := (nodes g checkbox)\<lparr>checked_changed_listener := False\<rparr>)\<rparr>
      in if cb_checked (nodes g1 checkbox)
         then removeCheckboxFromValue (set_value n) (cb_value (nodes g1 checkbox)) g1
         else Inr g1)"

text \<open>\<^verbatim>\<open>__warnOfCheckboxesWithoutValue(checkboxes)\<close> and the line it writes.\<close>

definition without_value_warning :: string where
  "without_value_warning =
     ''Please provide the value attribute to all the checkboxes inside the checkbox group.''"

definition warnOfCheckboxesWithoutValue :: "ref list \<Rightarrow> group \<Rightarrow> group" where
  "warnOfCheckboxesWithoutValue cbs g =
     (let hasCheckboxesWithoutValue =
            list_ex (\<lambda>checkbox. \<not> has_value_attr (nodes g checkbox)
                       \<and> (cb_value (nodes g checkbox) = '''' \<or> cb_value (nodes g checkbox) = ''on'')) cbs
      in if hasCheckboxesWithoutValue
         then g\<lparr>console := console g @ [without_value_warning]\<rparr>
         else g)"

text \<open>\<^verbatim>\<open>array.forEach(f)\<close> for a callback that may throw.\<close>

fun forEach :: "('a \<Rightarrow> 's \<Rightarrow> error + 's) \<Rightarrow> 'a list \<Rightarrow> 's \<Rightarrow> error + 's" where
  "forEach f [] s = Inr s"
| "forEach f (x # xs) s = (case f x s of Inl e \<Rightarrow> Inl e | Inr s' \<Rightarrow> forEach f xs s')"

text \<open>
  The callback that \<^verbatim>\<open>ready()\<close> gives to the slot observer, for one batch of added and removed
  nodes.
\<close>

definition slot_observer_callback :: "nat \<Rightarrow> ref list \<Rightarrow> ref list \<Rightarrow> group \<Rightarrow> error + group" where
  "slot_observer_callback n addedNodes removedNodes g =
     (let addedCheckboxes = filterCheckboxes g addedNodes;
          removedCheckboxes = filterCheckboxes g removedNodes
      in case forEach (registerCheckbox n) addedCheckboxes g of
           Inl e \<Rightarrow> Inl e
         | Inr g1 \<Rightarrow>
             (case forEach (unregisterCheckbox n) removedCheckboxes g1 of
                Inl e \<Rightarrow> Inl e
              | Inr g2 \<Rightarrow>
                  Inr (warnOfCheckboxesWithoutValue addedCheckboxes (g2\<lparr>aria_targets := checkboxes g2\<rparr>))))"

section \<open>Example states\<close>

text \<open>
  A tabs node whose \<^verbatim>\<open>selected\<close> is 1, a node of another kind, and a registry that knows the
  tabs element.
\<close>

definition example_tabs :: slot_node where
  "example_tabs = \<lparr>node_classes = [''Tabs'', ''HTMLElement''], node_items = Some [0, 1],
     node_selected = SelNumber 1, node_theme = None,
     items_changed_listener = False, selected_changed_listener = False\<rparr>"

definition example_div :: slot_node where
  "example_div = \<lparr>node_classes = [''HTMLDivElement'', ''HTMLElement''], node_items = None,
     node_selected = SelUndefined, node_theme = None,
     items_changed_listener = False, selected_changed_listener = False\<rparr>"

definition example_registry :: "string \<Rightarrow> string option" where
  "example_registry name = (if name = ''vaadin-tabs'' then Some ''Tabs'' else None)"

text \<open>
  A tab sheet with the tabs \<open>t1\<close> and \<open>t2\<close> at the references 0 and 1 and three panels: one
  for \<open>t1\<close> at 2, shown, and two for \<open>t2\<close> at 3 and 4, hidden. Its \<^verbatim>\<open>selected\<close> is 0 and its
  theme \<open>small\<close>; the tabs node is at the reference 10 of the node store and nothing is in
  the \<^verbatim>\<open>tabs\<close> slot yet.
\<close>

definition example_element :: element where
  "example_element = \<lparr>el_id = [], tab_attr = None, el_hidden = False, el_role = None,
     aria_labelledby = None, aria_controls = None\<rparr>"

definition example_sheet :: tabsheet where
  "example_sheet = \<lparr>
     elements = (\<lambda>_. example_element)
       (0 := example_element\<lparr>el_id := ''t1''\<rparr>,
        1 := example_element\<lparr>el_id := ''t2''\<rparr>,
        2 := example_element\<lparr>tab_attr := Some ''t1''\<rparr>,
        3 := example_element\<lparr>tab_attr := Some ''t2'', el_hidden := True\<rparr>,
        4 := example_element\<lparr>tab_attr := Some ''t2'', el_hidden := True\<rparr>),
     tabs_nodes = (\<lambda>_. example_div)(10 := example_tabs),
     ts_items = None, ts_selected = SelNumber 0, ts_theme = Some ''small'', ts_panels = None,
     ts_tabs = None, ts_stateTarget = None, controller_tabs = None, loading = False,
     content_minHeight = [], content_offsetHeight = 120, unique_id = 0\<rparr>"

text \<open>
  A required group whose value is the array \<open>[v0, v1, v3]\<close> at reference 0, with five
  checkboxes as children: \<open>v1\<close>, registered and checked; \<open>v2\<close>, checked and not yet
  registered; one without a \<^verbatim>\<open>value\<close> attribute and with the default value \<open>on\<close>; one
  without the attribute whose \<^verbatim>\<open>value\<close> property was set to \<open>foo\<close>; and \<open>v3\<close>, not
  checked and not yet registered.
\<close>

definition example_checkbox :: checkbox_node where
  "example_checkbox = \<lparr>is_checkbox = True, cb_value = ''on'', has_value_attr = False,
     cb_checked = False, cb_disabled = False, checked_changed_listener = False\<rparr>"

definition example_group :: group where
  "example_group = \<lparr>
     required = True, grp_disabled = False, grp_value = Array 0,
     arrays = (\<lambda>_. [])(0 := [''v0'', ''v1'', ''v3'']), next_array = 1,
     nodes = (\<lambda>_. example_checkbox\<lparr>is_checkbox := False\<rparr>)
       (0 := example_checkbox\<lparr>cb_value := ''v1'', has_value_attr := True, cb_checked := True,
                              checked_changed_listener := True\<rparr>,
        1 := example_checkbox\<lparr>cb_value := ''v2'', has_value_attr := True, cb_checked := True\<rparr>,
        2 := example_checkbox,
        3 := example_checkbox\<lparr>cb_value := ''foo''\<rparr>,
        4 := example_checkbox\<lparr>cb_value := ''v3'', has_value_attr := True\<rparr>),
     children = [0, 1, 2, 3, 4], has_value = True, invalid = False, aria_targets = [],
     console = [], value_changed_events = 0\<rparr>"

section \<open>Properties of the tab sheet\<close>

lemma fold_set_hidden_elements:
  "elements (fold (set_hidden sp) ps ts) p =
     (if p \<in> set ps then (elements ts p)\<lparr>el_hidden := (Some p \<noteq> sp)\<rparr> else elements ts p)"
  by (induction ps arbitrary: ts) (auto simp: set_hidden_def)

lemma fold_set_hidden_loading [simp]:
  "loading (fold (set_hidden sp) ps ts) = loading ts"
  by (induction ps arbitrary: ts) (auto simp: set_hidden_def)

lemma fold_set_hidden_minHeight [simp]:
  "content_minHeight (fold (set_hidden sp) ps ts) = content_minHeight ts"
  by (induction ps arbitrary: ts) (auto simp: set_hidden_def)

lemma find_first_index:
  "find P xs = Some p \<longleftrightarrow> (\<exists>k < length xs. xs ! k = p \<and> P p \<and> (\<forall>j < k. \<not> P (xs ! j)))"
  by (auto simp: find_Some_iff)

text \<open>
  What a pass that gets by its guard leaves behind, in terms of the panel it looked up: the
  \<^verbatim>\<open>hidden\<close> flag of every panel of the snapshot, the \<^verbatim>\<open>loading\<close> attribute and the
  minimum height.
\<close>

lemma selectedTabItemChanged_hidden:
  assumes "selected \<noteq> SelUndefined" and "p \<in> set panels"
  shows "el_hidden (elements (selectedTabItemChanged selected (Some items) (Some panels) ts) p)
           \<longleftrightarrow> find (\<lambda>panel. tab_attr (elements ts panel) =
                     Some (case item_at items selected of Some t \<Rightarrow> el_id (elements ts t) | None \<Rightarrow> [])) panels
                 \<noteq> Some p"
  using assms
  by (auto simp: selectedTabItemChanged_def Let_def fold_set_hidden_elements)

lemma selectedTabItemChanged_loading:
  assumes "selected \<noteq> SelUndefined"
  shows "loading (selectedTabItemChanged selected (Some items) (Some panels) ts)
           \<longleftrightarrow> find (\<lambda>panel. tab_attr (elements ts panel) =
                     Some (case item_at items selected of Some t \<Rightarrow> el_id (elements ts t) | None \<Rightarrow> [])) panels
                 = None"
  using assms by (simp add: selectedTabItemChanged_def Let_def)

lemma selectedTabItemChanged_minHeight:
  assumes "selected \<noteq> SelUndefined"
  shows "content_minHeight (selectedTabItemChanged selected (Some items) (Some panels) ts) =
          (if find (\<lambda>panel. tab_attr (elements ts panel) =
                     Some (case item_at items selected of Some t \<Rightarrow> el_id (elements ts t) | None \<Rightarrow> [])) panels
                 \<noteq> None then []
           else if length (filter (\<lambda>panel. \<not> el_hidden (elements ts panel)) panels) = 1
             then show_nat (content_offsetHeight ts) @ ''px''
           else content_minHeight ts)"
  using assms by (simp add: selectedTabItemChanged_def Let_def)

text \<open>
  Claim C1. In a pass with \<^verbatim>\<open>items\<close> and \<^verbatim>\<open>panels\<close> present and \<^verbatim>\<open>selected\<close> an index
  within \<^verbatim>\<open>items\<close>, a panel of the snapshot ends up shown (\<^verbatim>\<open>hidden = false\<close>) exactly when
  it is the first panel, in snapshot order, whose \<^verbatim>\<open>tab\<close> attribute equals the id of the
  selected tab; every other panel of the snapshot ends up hidden. Panels sharing the key make
  no exception: only the first of them is shown.
\<close>

theorem selected_panel_is_first_match:
  assumes "0 \<le> i" and "i < int (length items)"
  shows "\<forall>p \<in> set panels.
           (\<not> el_hidden (elements (selectedTabItemChanged (SelNumber i) (Some items) (Some panels) ts) p))
            \<longleftrightarrow> (\<exists>k < length panels. panels ! k = p
                   \<and> tab_attr (elements ts p) = Some (el_id (elements ts (items ! nat i)))
                   \<and> (\<forall>j < k. tab_attr (elements ts (panels ! j)) \<noteq> Some (el_id (elements ts (items ! nat i)))))"
proof
  fix p assume p: "p \<in> set panels"
  have at: "item_at items (SelNumber i) = Some (items ! nat i)"
    using assms by (simp add: item_at_def)
  show "(\<not> el_hidden (elements (selectedTabItemChanged (SelNumber i) (Some items) (Some panels) ts) p))
            \<longleftrightarrow> (\<exists>k < length panels. panels ! k = p
                   \<and> tab_attr (elements ts p) = Some (el_id (elements ts (items ! nat i)))
                   \<and> (\<forall>j < k. tab_attr (elements ts (panels ! j)) \<noteq> Some (el_id (elements ts (items ! nat i)))))"
    using p by (auto simp: selectedTabItemChanged_hidden at find_first_index)
qed

text \<open>
  On the example, selecting \<open>t2\<close> shows the panel at 3, the first of the two that declare
  \<open>t2\<close>, and hides the one at 4 and the one for \<open>t1\<close>.
\<close>

theorem selected_panel_is_first_match_witness:
  "\<not> el_hidden (elements (selectedTabItemChanged (SelNumber 1) (Some [0, 1]) (Some [2, 3, 4]) example_sheet) 3)
   \<and> el_hidden (elements (selectedTabItemChanged (SelNumber 1) (Some [0, 1]) (Some [2, 3, 4]) example_sheet) 4)
   \<and> el_hidden (elements (selectedTabItemChanged (SelNumber 1) (Some [0, 1]) (Some [2, 3, 4]) example_sheet) 2)"
  using selected_panel_is_first_match [of 1 "[0, 1]" "[2, 3, 4]" example_sheet]
  by (simp add: example_sheet_def example_element_def selectedTabItemChanged_def item_at_def
        set_hidden_def Let_def)

text \<open>
  Claim C3, as stated, fails when the observer is run with \<^verbatim>\<open>selected\<close> undefined: it
  returns at its guard. On the example with only the panel for \<open>t1\<close> projected there is no
  selected tab, the tab attribute of the one visible panel is not the empty id either, and
  yet the host does not get the \<^verbatim>\<open>loading\<close> attribute and the minimum height is not pinned.
\<close>

theorem guard_skips_loading_counterexample:
  "item_at [0, 1] SelUndefined = None
   \<and> tab_attr (elements example_sheet 2) \<noteq> Some []
   \<and> \<not> el_hidden (elements example_sheet 2)
   \<and> \<not> loading (selectedTabItemChanged SelUndefined (Some [0, 1]) (Some [2]) example_sheet)
   \<and> content_minHeight (selectedTabItemChanged SelUndefined (Some [0, 1]) (Some [2]) example_sheet) = []"
  by (simp add: example_sheet_def example_element_def selectedTabItemChanged_def item_at_def)

text \<open>
  Claim C3, amended. Run with \<^verbatim>\<open>selected\<close> undefined, or with \<^verbatim>\<open>items\<close> or \<^verbatim>\<open>panels\<close>
  absent, the observer returns at its guard and leaves the host as it was. In a pass that
  gets by the guard, the id looked for is that of the selected tab, or the empty string when
  \<^verbatim>\<open>items[selected]\<close> is \<^verbatim>\<open>undefined\<close>. If no panel of the snapshot has it as \<^verbatim>\<open>tab\<close>
  attribute, the host gets the \<^verbatim>\<open>loading\<close> attribute, and the minimum height of the content
  part becomes its \<^verbatim>\<open>offsetHeight\<close> in pixels if exactly one panel is visible when the pass
  starts, and stays as it was otherwise. If some panel has it, whatever the state the pass
  starts from (so also after a pass of the first kind), the \<^verbatim>\<open>loading\<close> attribute is removed
  and the minimum height is reset to the empty string.
\<close>

theorem loading_state_set_and_cleared:
  "(selected = SelUndefined \<or> its = None \<or> pans = None
      \<longrightarrow> selectedTabItemChanged selected its pans ts = ts)
   \<and> (selected \<noteq> SelUndefined \<longrightarrow>
       ((\<forall>p \<in> set panels. tab_attr (elements ts p) \<noteq>
              Some (case item_at items selected of Some t \<Rightarrow> el_id (elements ts t) | None \<Rightarrow> []))
          \<longrightarrow> loading (selectedTabItemChanged selected (Some items) (Some panels) ts)
              \<and> content_minHeight (selectedTabItemChanged selected (Some items) (Some panels) ts) =
                  (if length (filter (\<lambda>p. \<not> el_hidden (elements ts p)) panels) = 1
                   then show_nat (content_offsetHeight ts) @ ''px''
                   else content_minHeight ts))
       \<and> ((\<exists>p \<in> set panels. tab_attr (elements ts p) =
              Some (case item_at items selected of Some t \<Rightarrow> el_id (elements ts t) | None \<Rightarrow> []))
          \<longrightarrow> \<not> loading (selectedTabItemChanged selected (Some items) (Some panels) ts)
              \<and> content_minHeight (selectedTabItemChanged selected (Some items) (Some panels) ts) = []))"
proof (intro conjI impI)
  assume "selected = SelUndefined \<or> its = None \<or> pans = None"
  then show "selectedTabItemChanged selected its pans ts = ts"
    by (auto simp: selectedTabItemChanged_def split: option.splits)
next
  assume sel: "selected \<noteq> SelUndefined"
    and "\<forall>p \<in> set panels. tab_attr (elements ts p) \<noteq>
              Some (case item_at items selected of Some t \<Rightarrow> el_id (elements ts t) | None \<Rightarrow> [])"
  then have none: "find (\<lambda>panel. tab_attr (elements ts panel) =
       Some (case item_at items selected of Some t \<Rightarrow> el_id (elements ts t) | None \<Rightarrow> [])) panels = None"
    by (simp add: find_None_iff)
  show "loading (selectedTabItemChanged selected (Some items) (Some panels) ts)"
    using sel none by (simp add: selectedTabItemChanged_loading)
  show "content_minHeight (selectedTabItemChanged selected (Some items) (Some panels) ts) =
                  (if length (filter (\<lambda>p. \<not> el_hidden (elements ts p)) panels) = 1
                   then show_nat (content_offsetHeight ts) @ ''px''
                   else content_minHeight ts)"
    using sel none by (simp add: selectedTabItemChanged_minHeight)
next
  assume sel: "selected \<noteq> SelUndefined"
    and "\<exists>p \<in> set panels. tab_attr (elements ts p) =
              Some (case item_at items selected of Some t \<Rightarrow> el_id (elements ts t) | None \<Rightarrow> [])"
  then have some: "find (\<lambda>panel. tab_attr (elements ts panel) =
       Some (case item_at items selected of Some t \<Rightarrow> el_id (elements ts t) | None \<Rightarrow> [])) panels \<noteq> None"
    by (auto simp: find_None_iff)
  show "\<not> loading (selectedTabItemChanged selected (Some items) (Some panels) ts)"
    using sel some by (simp add: selectedTabItemChanged_loading)
  show "content_minHeight (selectedTabItemChanged selected (Some items) (Some panels) ts) = []"
    using sel some by (simp add: selectedTabItemChanged_minHeight)
qed

text \<open>
  On the example with only the panel for \<open>t1\<close> projected, selecting \<open>t2\<close> sets \<^verbatim>\<open>loading\<close>
  and pins the minimum height to \<^verbatim>\<open>120px\<close>; a later pass in which a panel for \<open>t2\<close> is there
  clears both; and a pass with \<^verbatim>\<open>selected\<close> undefined, or without panels, changes nothing.
\<close>

theorem loading_state_set_and_cleared_witness:
  "loading (selectedTabItemChanged (SelNumber 1) (Some [0, 1]) (Some [2]) example_sheet)
   \<and> content_minHeight (selectedTabItemChanged (SelNumber 1) (Some [0, 1]) (Some [2]) example_sheet) = ''120px''
   \<and> \<not> loading (selectedTabItemChanged (SelNumber 1) (Some [0, 1]) (Some [2, 3])
                 (selectedTabItemChanged (SelNumber 1) (Some [0, 1]) (Some [2]) example_sheet))
   \<and> content_minHeight (selectedTabItemChanged (SelNumber 1) (Some [0, 1]) (Some [2, 3])
                 (selectedTabItemChanged (SelNumber 1) (Some [0, 1]) (Some [2]) example_sheet)) = []
   \<and> selectedTabItemChanged SelUndefined (Some [0, 1]) (Some [2]) example_sheet = example_sheet
   \<and> selectedTabItemChanged (SelNumber 1) (Some [0, 1]) None example_sheet = example_sheet"
  using loading_state_set_and_cleared [where selected = "SelNumber 1" and panels = "[2]"
          and ts = example_sheet and items = "[0, 1]" and its = "Some [0, 1]" and pans = None]
    loading_state_set_and_cleared [where selected = "SelNumber 1" and panels = "[2, 3]"
      and ts = "selectedTabItemChanged (SelNumber 1) (Some [0, 1]) (Some [2]) example_sheet"
      and items = "[0, 1]" and its = None and pans = None]
    loading_state_set_and_cleared [where selected = SelUndefined and ts = example_sheet
      and its = "Some [0, 1]" and pans = "Some [2]" and items = "[]" and panels = "[]"]
  by (simp add: example_sheet_def example_element_def selectedTabItemChanged_def item_at_def
        set_hidden_def Let_def show_nat.simps digit_char_def)

text \<open>
  Claim C5, as stated, fails for \<^verbatim>\<open>undefined\<close>: the guard of the observer returns before
  anything is touched, so on the example the host does not get the \<^verbatim>\<open>loading\<close> attribute
  and the panel for \<open>t1\<close> stays shown.
\<close>

theorem undefined_selection_counterexample:
  "\<not> loading (selectedTabItemChanged SelUndefined (Some [0, 1]) (Some [2, 3, 4]) example_sheet)
   \<and> \<not> el_hidden (elements (selectedTabItemChanged SelUndefined (Some [0, 1]) (Some [2, 3, 4]) example_sheet) 2)"
  by (simp add: example_sheet_def example_element_def selectedTabItemChanged_def)

text \<open>
  Claim C5, amended. The observer has no failing branch for any value of \<^verbatim>\<open>selected\<close>. With
  \<^verbatim>\<open>selected\<close> undefined it returns the host as it was. With \<^verbatim>\<open>selected\<close> defined but
  \<^verbatim>\<open>items[selected]\<close> undefined (an index out of range, or no index at all), and no panel of
  the snapshot carrying an empty \<^verbatim>\<open>tab\<close> attribute, the host gets the \<^verbatim>\<open>loading\<close>
  attribute and every panel of the snapshot is hidden.
\<close>

theorem unresolvable_selection:
  "selectedTabItemChanged SelUndefined its pans ts = ts
   \<and> (selected \<noteq> SelUndefined \<and> item_at items selected = None
        \<and> (\<forall>p \<in> set panels. tab_attr (elements ts p) \<noteq> Some [])
      \<longrightarrow> loading (selectedTabItemChanged selected (Some items) (Some panels) ts)
          \<and> (\<forall>p \<in> set panels. el_hidden (elements (selectedTabItemChanged selected (Some items) (Some panels) ts) p)))"
proof (intro conjI impI ballI)
  show "selectedTabItemChanged SelUndefined its pans ts = ts"
    by (simp add: selectedTabItemChanged_def split: option.splits)
next
  assume a: "selected \<noteq> SelUndefined \<and> item_at items selected = None
        \<and> (\<forall>p \<in> set panels. tab_attr (elements ts p) \<noteq> Some [])"
  then have none: "find (\<lambda>panel. tab_attr (elements ts panel) =
       Some (case item_at items selected of Some t \<Rightarrow> el_id (elements ts t) | None \<Rightarrow> [])) panels = None"
    by (simp add: find_None_iff)
  show "loading (selectedTabItemChanged selected (Some items) (Some panels) ts)"
    using a none by (simp add: selectedTabItemChanged_loading)
  fix p assume "p \<in> set panels"
  then show "el_hidden (elements (selectedTabItemChanged selected (Some items) (Some panels) ts) p)"
    using a none by (simp add: selectedTabItemChanged_hidden)
qed

text \<open>On the example, the index 5 is out of range: the host is loading and all three panels are hidden.\<close>

theorem unresolvable_selection_witness:
  "item_at [0, 1] (SelNumber 5) = None
   \<and> loading (selectedTabItemChanged (SelNumber 5) (Some [0, 1]) (Some [2, 3, 4]) example_sheet)
   \<and> el_hidden (elements (selectedTabItemChanged (SelNumber 5) (Some [0, 1]) (Some [2, 3, 4]) example_sheet) 2)
   \<and> el_hidden (elements (selectedTabItemChanged (SelNumber 5) (Some [0, 1]) (Some [2, 3, 4]) example_sheet) 3)
   \<and> el_hidden (elements (selectedTabItemChanged (SelNumber 5) (Some [0, 1]) (Some [2, 3, 4]) example_sheet) 4)"
  using unresolvable_selection [of "Some [0, 1]" "Some [2, 3, 4]" example_sheet "SelNumber 5" "[0, 1]" "[2, 3, 4]"]
  by (simp add: example_sheet_def example_element_def item_at_def)

subsection \<open>The controller of the tabs slot\<close>

lemma fold_link_tab_frame:
  "ts_items (fold (link_tab panels) its ts) = ts_items ts
   \<and> ts_panels (fold (link_tab panels) its ts) = ts_panels ts
   \<and> ts_selected (fold (link_tab panels) its ts) = ts_selected ts
   \<and> controller_tabs (fold (link_tab panels) its ts) = controller_tabs ts
   \<and> ts_tabs (fold (link_tab panels) its ts) = ts_tabs ts
   \<and> ts_stateTarget (fold (link_tab panels) its ts) = ts_stateTarget ts
   \<and> tabs_nodes (fold (link_tab panels) its ts) = tabs_nodes ts"
  by (induction its arbitrary: ts)
     (auto simp: link_tab_def generateUniqueId_def Let_def split: option.splits)

lemma fold_set_hidden_frame:
  "ts_items (fold (set_hidden sp) ps ts) = ts_items ts
   \<and> ts_selected (fold (set_hidden sp) ps ts) = ts_selected ts
   \<and> controller_tabs (fold (set_hidden sp) ps ts) = controller_tabs ts
   \<and> ts_tabs (fold (set_hidden sp) ps ts) = ts_tabs ts
   \<and> ts_stateTarget (fold (set_hidden sp) ps ts) = ts_stateTarget ts
   \<and> tabs_nodes (fold (set_hidden sp) ps ts) = tabs_nodes ts"
  by (induction ps arbitrary: ts) (auto simp: set_hidden_def)

lemma selectedTabItemChanged_frame:
  "ts_items (selectedTabItemChanged sel its pans ts) = ts_items ts
   \<and> ts_selected (selectedTabItemChanged sel its pans ts) = ts_selected ts
   \<and> controller_tabs (selectedTabItemChanged sel its pans ts) = controller_tabs ts
   \<and> ts_tabs (selectedTabItemChanged sel its pans ts) = ts_tabs ts
   \<and> ts_stateTarget (selectedTabItemChanged sel its pans ts) = ts_stateTarget ts
   \<and> tabs_nodes (selectedTabItemChanged sel its pans ts) = tabs_nodes ts"
  by (simp add: selectedTabItemChanged_def Let_def fold_set_hidden_frame split: option.splits)

lemma itemsOrPanelsChanged_frame:
  "ts_items (itemsOrPanelsChanged its pans ts) = ts_items ts
   \<and> ts_panels (itemsOrPanelsChanged its pans ts) = ts_panels ts
   \<and> ts_selected (itemsOrPanelsChanged its pans ts) = ts_selected ts
   \<and> controller_tabs (itemsOrPanelsChanged its pans ts) = controller_tabs ts
   \<and> ts_tabs (itemsOrPanelsChanged its pans ts) = ts_tabs ts
   \<and> ts_stateTarget (itemsOrPanelsChanged its pans ts) = ts_stateTarget ts
   \<and> tabs_nodes (itemsOrPanelsChanged its pans ts) = tabs_nodes ts"
  by (simp add: itemsOrPanelsChanged_def fold_link_tab_frame split: option.splits)

lemma setItems_frame:
  "ts_items (setItems its ts) = its
   \<and> ts_selected (setItems its ts) = ts_selected ts
   \<and> controller_tabs (setItems its ts) = controller_tabs ts
   \<and> ts_tabs (setItems its ts) = ts_tabs ts
   \<and> ts_stateTarget (setItems its ts) = ts_stateTarget ts
   \<and> tabs_nodes (setItems its ts) = tabs_nodes ts"
  by (simp add: setItems_def Let_def selectedTabItemChanged_frame itemsOrPanelsChanged_frame)

text \<open>
  Assigning the value the host already holds needs no budget. That is the assignment the
  controller's own listener makes when the delegation has just written the host's value
  into the node, so the delegation settles at once.
\<close>

lemma set_selected_same:
  "set_selected n (ts_selected ts) ts = Inr ts"
  by (cases n) simp_all

lemma set_tabs_selected_own_listener:
  assumes "controller_tabs ts = Some t" and "v = ts_selected ts"
  shows "set_tabs_selected (set_selected n) t v ts =
           Inr (ts\<lparr>tabs_nodes := (tabs_nodes ts)(t := (tabs_nodes ts t)\<lparr>node_selected := v\<rparr>)\<rparr>)"
proof (cases "node_selected (tabs_nodes ts t) = v")
  case True
  then have "(tabs_nodes ts)(t := (tabs_nodes ts t)\<lparr>node_selected := v\<rparr>) = tabs_nodes ts"
    by (auto simp: fun_eq_iff)
  with True show ?thesis by (simp add: set_tabs_selected_def)
next
  case False
  let ?ts' = "ts\<lparr>tabs_nodes := (tabs_nodes ts)(t := (tabs_nodes ts t)\<lparr>node_selected := v\<rparr>)\<rparr>"
  have "tabsSelectedChangedListener (set_selected n) ?ts' = set_selected n (ts_selected ?ts') ?ts'"
    using assms by (simp add: tabsSelectedChangedListener_def)
  then have "tabsSelectedChangedListener (set_selected n) ?ts' = Inr ?ts'"
    by (simp only: set_selected_same)
  with False show ?thesis by (simp add: set_tabs_selected_def Let_def)
qed

lemma set_stateTarget_result:
  assumes "controller_tabs ts = Some t"
  shows "set_stateTarget n t ts =
           Inr (if ts_stateTarget ts = Some t then ts
                else ts\<lparr>ts_stateTarget := Some t,
                        tabs_nodes := (tabs_nodes ts)(t := (tabs_nodes ts t)
                          \<lparr>node_theme := (case ts_theme ts of None \<Rightarrow> None
                                            | Some s \<Rightarrow> if s = [] then None else Some s),
                           node_selected := ts_selected ts\<rparr>)\<rparr>)"
proof (cases "ts_stateTarget ts = Some t")
  case True
  then show ?thesis by (simp add: set_stateTarget_def)
next
  case False
  let ?ts2 = "delegateAttribute (ts_theme ts) (ts\<lparr>ts_stateTarget := Some t\<rparr>)"
  have c: "controller_tabs ?ts2 = Some t" "ts_selected ?ts2 = ts_selected ts" "ts_stateTarget ?ts2 = Some t"
    using assms by (simp_all add: delegateAttribute_def)
  have "delegateProperty (set_selected n) (ts_selected ?ts2) ?ts2 =
          Inr (?ts2\<lparr>tabs_nodes := (tabs_nodes ?ts2)(t := (tabs_nodes ?ts2 t)\<lparr>node_selected := ts_selected ?ts2\<rparr>)\<rparr>)"
    using set_tabs_selected_own_listener [OF c(1), of "ts_selected ?ts2" n] c(3)
    by (simp add: delegateProperty_def del: set_selected.simps)
  with False show ?thesis
    by (simp add: set_stateTarget_def Let_def delegateAttribute_def del: set_selected.simps)
qed

lemma example_sheet_facts:
  "tabs_nodes example_sheet 10 = example_tabs" "tabs_nodes example_sheet 11 = example_div"
  "ts_selected example_sheet = SelNumber 0" "ts_theme example_sheet = Some ''small''"
  "ts_stateTarget example_sheet = None"
  "node_classes example_tabs = [''Tabs'', ''HTMLElement'']"
  "node_classes example_div = [''HTMLDivElement'', ''HTMLElement'']"
  "node_items example_tabs = Some [0, 1]" "node_selected example_tabs = SelNumber 1"
  by (simp_all add: example_sheet_def example_tabs_def example_div_def)

text \<open>
  Claim C6. With the tabs element class registered, \<^verbatim>\<open>initCustomNode\<close> on a node that is
  not an instance of it ends with the \<^verbatim>\<open>Error\<close> the code throws, and nothing else happens.
  On a node that is an instance it ends without an error, whatever the budget, and
  registration is complete: the controller, \<^verbatim>\<open>__tabs\<close> and \<^verbatim>\<open>stateTarget\<close> refer to the
  node, both listeners are attached to it, the host's \<^verbatim>\<open>items\<close> are those of the node and
  the host's \<^verbatim>\<open>selected\<close> is what it was. Unless the node was the state target already, the
  node's \<^verbatim>\<open>selected\<close> is now the host's and its \<^verbatim>\<open>theme\<close> attribute follows the host's theme.
\<close>

theorem tabs_slot_kind_check:
  assumes "customElements_get ''vaadin-tabs'' = Some cls"
  shows "(cls \<notin> set (node_classes (tabs_nodes ts tabs))
            \<longrightarrow> initCustomNode n customElements_get tabs ts = Inl (Error tabs_slot_message))
       \<and> (cls \<in> set (node_classes (tabs_nodes ts tabs))
            \<longrightarrow> (\<exists>ts'. initCustomNode n customElements_get tabs ts = Inr ts'
                   \<and> controller_tabs ts' = Some tabs
                   \<and> ts_tabs ts' = Some tabs
                   \<and> ts_stateTarget ts' = Some tabs
                   \<and> items_changed_listener (tabs_nodes ts' tabs)
                   \<and> selected_changed_listener (tabs_nodes ts' tabs)
                   \<and> ts_items ts' = node_items (tabs_nodes ts tabs)
                   \<and> ts_selected ts' = ts_selected ts
                   \<and> (ts_stateTarget ts \<noteq> Some tabs \<longrightarrow>
                        node_selected (tabs_nodes ts' tabs) = ts_selected ts
                        \<and> node_theme (tabs_nodes ts' tabs) =
                            (case ts_theme ts of None \<Rightarrow> None
                             | Some s \<Rightarrow> if s = [] then None else Some s))))"
proof (intro conjI impI)
  assume "cls \<notin> set (node_classes (tabs_nodes ts tabs))"
  then show "initCustomNode n customElements_get tabs ts = Inl (Error tabs_slot_message)"
    using assms by (simp add: initCustomNode_def instanceof_def)
next
  assume inst: "cls \<in> set (node_classes (tabs_nodes ts tabs))"
  let ?ts3 = "ts\<lparr>controller_tabs := Some tabs,
                  tabs_nodes := (tabs_nodes ts)(tabs := (tabs_nodes ts tabs)
                     \<lparr>items_changed_listener := True, selected_changed_listener := True\<rparr>),
                  ts_tabs := Some tabs\<rparr>"
  have c: "controller_tabs ?ts3 = Some tabs" by simp
  have init: "initCustomNode n customElements_get tabs ts =
      (case set_stateTarget n tabs ?ts3 of Inl e \<Rightarrow> Inl e | Inr ts4 \<Rightarrow> tabsItemsChangedListener ts4)"
    using assms inst by (simp add: initCustomNode_def instanceof_def Let_def)
  show "\<exists>ts'. initCustomNode n customElements_get tabs ts = Inr ts'
                   \<and> controller_tabs ts' = Some tabs
                   \<and> ts_tabs ts' = Some tabs
                   \<and> ts_stateTarget ts' = Some tabs
                   \<and> items_changed_listener (tabs_nodes ts' tabs)
                   \<and> selected_changed_listener (tabs_nodes ts' tabs)
                   \<and> ts_items ts' = node_items (tabs_nodes ts tabs)
                   \<and> ts_selected ts' = ts_selected ts
                   \<and> (ts_stateTarget ts \<noteq> Some tabs \<longrightarrow>
                        node_selected (tabs_nodes ts' tabs) = ts_selected ts
                        \<and> node_theme (tabs_nodes ts' tabs) =
                            (case ts_theme ts of None \<Rightarrow> None
                             | Some s \<Rightarrow> if s = [] then None else Some s))"
    unfolding init set_stateTarget_result [OF c]
    by (simp add: tabsItemsChangedListener_def setItems_frame)
qed

text \<open>
  On the examples: the \<^verbatim>\<open>div\<close> is refused with the error; the tabs node is accepted, and its
  \<^verbatim>\<open>selected\<close>, which was 1, becomes the host's 0 and its theme the host's \<open>small\<close>.
\<close>

theorem tabs_slot_kind_check_witness:
  "example_registry ''vaadin-tabs'' = Some ''Tabs''
   \<and> initCustomNode 0 example_registry 11 example_sheet = Inl (Error tabs_slot_message)
   \<and> node_selected (tabs_nodes example_sheet 10) = SelNumber 1
   \<and> (\<exists>ts'. initCustomNode 0 example_registry 10 example_sheet = Inr ts'
          \<and> ts_items ts' = Some [0, 1]
          \<and> node_selected (tabs_nodes ts' 10) = SelNumber 0
          \<and> node_theme (tabs_nodes ts' 10) = Some ''small'')"
  using tabs_slot_kind_check [where customElements_get = example_registry and cls = "''Tabs''"
          and tabs = 11 and ts = example_sheet and n = 0]
    tabs_slot_kind_check [where customElements_get = example_registry and cls = "''Tabs''"
          and tabs = 10 and ts = example_sheet and n = 0]
  by (auto simp: example_registry_def example_sheet_facts)

section \<open>Properties of the checkbox group\<close>

subsection \<open>The feedback loop settles at once\<close>

text \<open>
  While \<^verbatim>\<open>this.value\<close> holds the array \<open>r\<close>, a checkbox whose flag agrees with the
  membership of its value in that array makes the listener do nothing, whatever the
  assignment \<open>assign\<close> would do: the mutators return at their membership test.
\<close>

lemma onCheckboxCheckedChanged_in_sync:
  assumes "grp_value g = Array r"
    and "cb_checked (nodes g c) \<longleftrightarrow> cb_value (nodes g c) \<in> set (arrays g r)"
  shows "onCheckboxCheckedChanged assign c g = Inr g"
  using assms
  by (simp add: onCheckboxCheckedChanged_def addCheckboxToValue_def removeCheckboxFromValue_def)

lemma set_checked_in_sync:
  assumes "grp_value g = Array r"
    and "b \<longleftrightarrow> cb_value (nodes g c) \<in> set (arrays g r)"
  shows "set_checked assign c b g = Inr (g\<lparr>nodes := (nodes g)(c := (nodes g c)\<lparr>cb_checked := b\<rparr>)\<rparr>)"
proof (cases "cb_checked (nodes g c) = b")
  case True
  then have "(nodes g)(c := (nodes g c)\<lparr>cb_checked := b\<rparr>) = nodes g"
    by (auto simp: fun_eq_iff)
  with True show ?thesis by (simp add: set_checked_def)
next
  case False
  let ?g' = "g\<lparr>nodes := (nodes g)(c := (nodes g c)\<lparr>cb_checked := b\<rparr>)\<rparr>"
  have "onCheckboxCheckedChanged assign c ?g' = Inr ?g'"
    using assms by (intro onCheckboxCheckedChanged_in_sync [where r = r]) auto
  with False show ?thesis by (simp add: set_checked_def Let_def)
qed

lemma sync_checkboxes_in_sync:
  assumes "grp_value g = Array r"
  shows "sync_checkboxes assign r cs g =
           Inr (g\<lparr>nodes := (\<lambda>c. if c \<in> set cs
                                 then (nodes g c)\<lparr>cb_checked := (cb_value (nodes g c) \<in> set (arrays g r))\<rparr>
                                 else nodes g c)\<rparr>)"
  using assms
proof (induction cs arbitrary: g)
  case Nil
  then show ?case by simp
next
  case (Cons c cs)
  let ?g1 = "g\<lparr>nodes := (nodes g)(c := (nodes g c)\<lparr>cb_checked := (cb_value (nodes g c) \<in> set (arrays g r))\<rparr>)\<rparr>"
  have step: "set_checked assign c (cb_value (nodes g c) \<in> set (arrays g r)) g = Inr ?g1"
    using Cons.prems by (rule set_checked_in_sync) simp
  have "grp_value ?g1 = Array r" using Cons.prems by simp
  from Cons.IH [OF this] step show ?case
    by (auto simp: fun_eq_iff intro!: arg_cong [where f = "\<lambda>N. g\<lparr>nodes := N\<rparr>"])
qed

lemma checkboxes_cong [simp]:
  "checkboxes (g\<lparr>has_value := h\<rparr>) = checkboxes g"
  "checkboxes (g\<lparr>grp_value := w\<rparr>) = checkboxes g"
  "checkboxes (g\<lparr>arrays := A\<rparr>) = checkboxes g"
  "checkboxes (g\<lparr>next_array := k\<rparr>) = checkboxes g"
  by (simp_all add: checkboxes_def filterCheckboxes_def)

text \<open>The observer, run on the array that \<^verbatim>\<open>this.value\<close> holds, in closed form.\<close>

lemma valueChanged_in_sync:
  assumes "grp_value g = Array r"
  shows "valueChanged assign (Array r) old g =
           Inr (if arrays g r = [] \<and> old = Undefined then g
                else g\<lparr>has_value := (arrays g r \<noteq> []),
                       nodes := synced_nodes g (arrays g r),
                       invalid := (if old \<noteq> Undefined then required g \<and> arrays g r = [] else invalid g)\<rparr>)"
  using assms
  by (simp add: valueChanged_def sync_checkboxes_in_sync validate_def checkValidity_def cong: if_cong)

text \<open>
  Replacing the array: with one unit of budget the assignment of a newly allocated array
  completes, and this is the state it leaves.
\<close>

lemma assign_new_array:
  assumes "grp_value g = Array r" and "r < next_array g"
  shows "(case new_array ys g of (a, g') \<Rightarrow> set_value (Suc n) (Array a) g') =
           Inr (g\<lparr>grp_value := Array (next_array g),
                  arrays := (arrays g)(next_array g := ys),
                  next_array := Suc (next_array g),
                  has_value := (ys \<noteq> []),
                  nodes := synced_nodes g ys,
                  invalid := (required g \<and> ys = []),
                  value_changed_events := Suc (value_changed_events g)\<rparr>)"
  using assms
  by (simp add: new_array_def valueChanged_in_sync cong: if_cong)

lemma addCheckboxToValue_result:
  assumes "grp_value g = Array r" and "r < next_array g"
  shows "addCheckboxToValue (set_value (Suc n)) v g =
           Inr (if v \<in> set (arrays g r) then g
                else g\<lparr>grp_value := Array (next_array g),
                  arrays := (arrays g)(next_array g := arrays g r @ [v]),
                  next_array := Suc (next_array g),
                  has_value := True,
                  nodes := synced_nodes g (arrays g r @ [v]),
                  invalid := False,
                  value_changed_events := Suc (value_changed_events g)\<rparr>)"
  using assms assign_new_array [OF assms, where ys = "arrays g r @ [v]" and n = n]
  by (simp add: addCheckboxToValue_def)

lemma removeCheckboxFromValue_result:
  assumes "grp_value g = Array r" and "r < next_array g"
  shows "removeCheckboxFromValue (set_value (Suc n)) v g =
           Inr (if v \<notin> set (arrays g r) then g
                else g\<lparr>grp_value := Array (next_array g),
                  arrays := (arrays g)(next_array g := filter (\<lambda>u. u \<noteq> v) (arrays g r)),
                  next_array := Suc (next_array g),
                  has_value := (filter (\<lambda>u. u \<noteq> v) (arrays g r) \<noteq> []),
                  nodes := synced_nodes g (filter (\<lambda>u. u \<noteq> v) (arrays g r)),
                  invalid := (required g \<and> filter (\<lambda>u. u \<noteq> v) (arrays g r) = []),
                  value_changed_events := Suc (value_changed_events g)\<rparr>)"
  using assms assign_new_array [OF assms, where ys = "filter (\<lambda>u. u \<noteq> v) (arrays g r)" and n = n]
  by (simp add: removeCheckboxFromValue_def)

subsection \<open>Registration and unregistration\<close>

lemma registerCheckbox_result:
  assumes "grp_value g = Array r" and "r < next_array g"
  shows "\<exists>g' r'. registerCheckbox (Suc n) c g = Inr g'
           \<and> grp_value g' = Array r' \<and> r' < next_array g'
           \<and> arrays g' r' = (if cb_checked (nodes g c) \<and> cb_value (nodes g c) \<notin> set (arrays g r)
                              then arrays g r @ [cb_value (nodes g c)] else arrays g r)
           \<and> (\<forall>q < next_array g. arrays g' q = arrays g q)
           \<and> (cb_checked (nodes g' c) \<longleftrightarrow> cb_checked (nodes g c) \<or> cb_value (nodes g c) \<in> set (arrays g r))
           \<and> checked_changed_listener (nodes g' c)
           \<and> console g' = console g
           \<and> (\<forall>d. cb_value (nodes g' d) = cb_value (nodes g d)
                  \<and> has_value_attr (nodes g' d) = has_value_attr (nodes g d)
                  \<and> is_checkbox (nodes g' d) = is_checkbox (nodes g d))"
proof -
  let ?g1 = "g\<lparr>nodes := (nodes g)(c := (nodes g c)\<lparr>checked_changed_listener := True\<rparr>)\<rparr>"
  let ?g2 = "if grp_disabled ?g1
             then ?g1\<lparr>nodes := (nodes ?g1)(c := (nodes ?g1 c)\<lparr>cb_disabled := True\<rparr>)\<rparr> else ?g1"
  have g2: "grp_value ?g2 = Array r" "r < next_array ?g2" "arrays ?g2 = arrays g"
    "next_array ?g2 = next_array g" "console ?g2 = console g"
    "cb_checked (nodes ?g2 c) = cb_checked (nodes g c)"
    "cb_value (nodes ?g2 c) = cb_value (nodes g c)"
    "checked_changed_listener (nodes ?g2 c)"
    "\<And>d. cb_value (nodes ?g2 d) = cb_value (nodes g d)"
    "\<And>d. has_value_attr (nodes ?g2 d) = has_value_attr (nodes g d)"
    "\<And>d. is_checkbox (nodes ?g2 d) = is_checkbox (nodes g d)"
    using assms by auto
  have reg: "registerCheckbox (Suc n) c g =
      (if cb_checked (nodes g c)
         then addCheckboxToValue (set_value (Suc n)) (cb_value (nodes g c)) ?g2
         else if cb_value (nodes g c) \<in> set (arrays g r)
                   then set_checked (set_value (Suc n)) c True ?g2
                   else Inr ?g2)"
    using g2(1,3,6,7) by (simp add: registerCheckbox_def Let_def del: set_value.simps)
  consider (checked) "cb_checked (nodes g c)"
    | (member) "\<not> cb_checked (nodes g c)" "cb_value (nodes g c) \<in> set (arrays g r)"
    | (neither) "\<not> cb_checked (nodes g c)" "cb_value (nodes g c) \<notin> set (arrays g r)"
    by blast
  then show ?thesis
  proof cases
    case checked
    then show ?thesis
      using g2 addCheckboxToValue_result [OF g2(1,2), of n "cb_value (nodes g c)"]
      by (auto simp: reg checkboxes_def filterCheckboxes_def simp del: set_value.simps)
  next
    case member
    then show ?thesis
      using g2 set_checked_in_sync [OF g2(1), of True c "set_value (Suc n)"]
      by (auto simp: reg simp del: set_value.simps)
  next
    case neither
    then show ?thesis
      using g2 by (auto simp: reg simp del: set_value.simps)
  qed
qed

lemma unregisterCheckbox_result:
  assumes "grp_value g = Array r" and "r < next_array g"
  shows "\<exists>g' r'. unregisterCheckbox (Suc n) c g = Inr g'
           \<and> grp_value g' = Array r' \<and> r' < next_array g'
           \<and> arrays g' r' = (if cb_checked (nodes g c)
                              then filter (\<lambda>u. u \<noteq> cb_value (nodes g c)) (arrays g r) else arrays g r)
           \<and> (cb_checked (nodes g c) \<and> cb_value (nodes g c) \<in> set (arrays g r) \<longrightarrow> r' = next_array g)
           \<and> (\<forall>q < next_array g. arrays g' q = arrays g q)
           \<and> console g' = console g
           \<and> (\<forall>d. cb_value (nodes g' d) = cb_value (nodes g d)
                  \<and> has_value_attr (nodes g' d) = has_value_attr (nodes g d)
                  \<and> is_checkbox (nodes g' d) = is_checkbox (nodes g d))"
proof -
  let ?g1 = "g\<lparr>nodes := (nodes g)(c := (nodes g c)\<lparr>checked_changed_listener := False\<rparr>)\<rparr>"
  have g1: "grp_value ?g1 = Array r" "r < next_array ?g1"
    using assms by auto
  have unreg: "unregisterCheckbox (Suc n) c g =
      (if cb_checked (nodes g c)
       then removeCheckboxFromValue (set_value (Suc n)) (cb_value (nodes g c)) ?g1 else Inr ?g1)"
    by (simp add: unregisterCheckbox_def Let_def del: set_value.simps)
  have same: "cb_value (nodes g c) \<notin> set (arrays g r)
       \<Longrightarrow> filter (\<lambda>u. u \<noteq> cb_value (nodes g c)) (arrays g r) = arrays g r"
    by (auto simp: filter_id_conv)
  show ?thesis
    using assms same removeCheckboxFromValue_result [OF g1, of n "cb_value (nodes g c)"]
    by (auto simp: unreg checkboxes_def filterCheckboxes_def simp del: set_value.simps)
qed

lemma forEach_preserves:
  assumes "\<And>x s. P s \<Longrightarrow> \<exists>s'. f x s = Inr s' \<and> P s'" and "P s"
  shows "\<exists>s'. forEach f xs s = Inr s' \<and> P s'"
  using assms(2)
proof (induction xs arbitrary: s)
  case Nil
  then show ?case by simp
next
  case (Cons x xs)
  from assms(1) [OF Cons.prems] obtain s1 where "f x s = Inr s1" "P s1" by blast
  with Cons.IH [of s1] show ?case by simp
qed

text \<open>
  A whole batch: every registration and unregistration keeps \<^verbatim>\<open>this.value\<close> an allocated
  array and leaves the console and the values, \<^verbatim>\<open>value\<close> attributes and kinds of the nodes
  alone, so the batch completes and the warning depends on the added checkboxes only.
\<close>

lemma slot_observer_callback_result:
  assumes "grp_value g = Array r" and "r < next_array g"
  shows "\<exists>g'. slot_observer_callback (Suc n) addedNodes removedNodes g = Inr g'
           \<and> console g' =
               (if \<exists>c \<in> set addedNodes. is_checkbox (nodes g c) \<and> \<not> has_value_attr (nodes g c)
                      \<and> (cb_value (nodes g c) = [] \<or> cb_value (nodes g c) = ''on'')
                then console g @ [without_value_warning] else console g)"
proof -
  let ?P = "\<lambda>s. (\<exists>r. grp_value s = Array r \<and> r < next_array s) \<and> console s = console g
                \<and> (\<forall>d. cb_value (nodes s d) = cb_value (nodes g d)
                       \<and> has_value_attr (nodes s d) = has_value_attr (nodes g d)
                       \<and> is_checkbox (nodes s d) = is_checkbox (nodes g d))"
  have P0: "?P g" using assms by simp
  have reg: "\<exists>s'. registerCheckbox (Suc n) x s = Inr s' \<and> ?P s'" if "?P s" for x s
  proof -
    from that obtain q where q: "grp_value s = Array q" "q < next_array s" by blast
    from registerCheckbox_result [OF q, of n x] that show ?thesis by (metis (no_types, lifting))
  qed
  have unreg: "\<exists>s'. unregisterCheckbox (Suc n) x s = Inr s' \<and> ?P s'" if "?P s" for x s
  proof -
    from that obtain q where q: "grp_value s = Array q" "q < next_array s" by blast
    from unregisterCheckbox_result [OF q, of n x] that show ?thesis by (metis (no_types, lifting))
  qed
  from forEach_preserves [of ?P "registerCheckbox (Suc n)", OF reg P0, of "filterCheckboxes g addedNodes"]
  obtain g1 where g1: "forEach (registerCheckbox (Suc n)) (filterCheckboxes g addedNodes) g = Inr g1" "?P g1"
    by blast
  from forEach_preserves [of ?P "unregisterCheckbox (Suc n)", OF unreg g1(2), of "filterCheckboxes g removedNodes"]
  obtain g2 where g2: "forEach (unregisterCheckbox (Suc n)) (filterCheckboxes g removedNodes) g1 = Inr g2" "?P g2"
    by blast
  have "slot_observer_callback (Suc n) addedNodes removedNodes g =
          Inr (warnOfCheckboxesWithoutValue (filterCheckboxes g addedNodes) (g2\<lparr>aria_targets := checkboxes g2\<rparr>))"
    using g1(1) g2(1) by (simp add: slot_observer_callback_def Let_def del: set_value.simps)
  moreover have "console (warnOfCheckboxesWithoutValue (filterCheckboxes g addedNodes) (g2\<lparr>aria_targets := checkboxes g2\<rparr>)) =
       (if \<exists>c \<in> set addedNodes. is_checkbox (nodes g c) \<and> \<not> has_value_attr (nodes g c)
                      \<and> (cb_value (nodes g c) = [] \<or> cb_value (nodes g c) = ''on'')
                then console g @ [without_value_warning] else console g)"
    using g2(2) by (auto simp: warnOfCheckboxesWithoutValue_def Let_def list_ex_iff filterCheckboxes_def)
  ultimately show ?thesis by simp
qed

lemma example_group_facts:
  "grp_value example_group = Array 0" "0 < next_array example_group" "next_array example_group = Suc 0"
  "arrays example_group 0 = [''v0'', ''v1'', ''v3'']"
  "value_changed_events example_group = 0" "console example_group = []"
  "cb_checked (nodes example_group 0)" "cb_value (nodes example_group 0) = ''v1''"
  "cb_checked (nodes example_group (Suc 0))" "cb_value (nodes example_group (Suc 0)) = ''v2''"
  "\<not> cb_checked (nodes example_group 2)" "cb_value (nodes example_group 2) = ''on''"
  "is_checkbox (nodes example_group 2)" "\<not> has_value_attr (nodes example_group 2)"
  "\<not> cb_checked (nodes example_group 4)" "cb_value (nodes example_group 4) = ''v3''"
  by (simp_all add: example_group_def example_checkbox_def)

subsection \<open>The claims\<close>

text \<open>
  Claim C2. For a group whose \<^verbatim>\<open>value\<close> is an array, \<^verbatim>\<open>checkValidity()\<close> returns, and it
  returns \<^verbatim>\<open>false\<close> exactly when the group is required and the array is empty.
\<close>

theorem checkValidity_required_and_empty:
  assumes "grp_value g = Array r"
  shows "checkValidity g = Inr (\<not> (required g \<and> arrays g r = []))"
  using assms by (simp add: checkValidity_def)

text \<open>
  The example group is required and has a value: valid. The same group with an empty array:
  not valid.
\<close>

theorem checkValidity_required_and_empty_witness:
  "checkValidity example_group = Inr True
   \<and> checkValidity (example_group\<lparr>arrays := (\<lambda>_. [])\<rparr>) = Inr False"
  using checkValidity_required_and_empty [of example_group 0]
    checkValidity_required_and_empty [of "example_group\<lparr>arrays := (\<lambda>_. [])\<rparr>" 0]
  by (simp add: example_group_def)

text \<open>
  Claim C4. Let \<^verbatim>\<open>value\<close> hold an allocated array. Adding a string that the array contains,
  and removing one that it does not contain, return the group as it was: the same array
  object, no observer run, no notification. Adding a string that is not in the array, and
  removing one that is, assign a newly allocated array (the old contents with the string
  appended, or with all its occurrences filtered out), fire one notification, and leave every
  array that existed before, the previous value among them, with its contents.
\<close>

theorem value_mutators_set_semantics:
  assumes "grp_value g = Array r" and "r < next_array g"
  shows "(v \<in> set (arrays g r) \<longrightarrow> addCheckboxToValue (set_value n) v g = Inr g)
       \<and> (v \<notin> set (arrays g r) \<longrightarrow> removeCheckboxFromValue (set_value n) v g = Inr g)
       \<and> (v \<notin> set (arrays g r) \<longrightarrow>
            (\<exists>g'. addCheckboxToValue (set_value (Suc n)) v g = Inr g'
                 \<and> grp_value g' = Array (next_array g) \<and> next_array g \<noteq> r
                 \<and> arrays g' (next_array g) = arrays g r @ [v]
                 \<and> (\<forall>q < next_array g. arrays g' q = arrays g q)
                 \<and> value_changed_events g' = Suc (value_changed_events g)))
       \<and> (v \<in> set (arrays g r) \<longrightarrow>
            (\<exists>g'. removeCheckboxFromValue (set_value (Suc n)) v g = Inr g'
                 \<and> grp_value g' = Array (next_array g) \<and> next_array g \<noteq> r
                 \<and> arrays g' (next_array g) = filter (\<lambda>u. u \<noteq> v) (arrays g r)
                 \<and> (\<forall>q < next_array g. arrays g' q = arrays g q)
                 \<and> value_changed_events g' = Suc (value_changed_events g)))"
proof (intro conjI impI)
  assume "v \<in> set (arrays g r)"
  then show "addCheckboxToValue (set_value n) v g = Inr g"
    using assms by (simp add: addCheckboxToValue_def)
next
  assume "v \<notin> set (arrays g r)"
  then show "removeCheckboxFromValue (set_value n) v g = Inr g"
    using assms by (simp add: removeCheckboxFromValue_def)
next
  assume "v \<notin> set (arrays g r)"
  then show "\<exists>g'. addCheckboxToValue (set_value (Suc n)) v g = Inr g'
                 \<and> grp_value g' = Array (next_array g) \<and> next_array g \<noteq> r
                 \<and> arrays g' (next_array g) = arrays g r @ [v]
                 \<and> (\<forall>q < next_array g. arrays g' q = arrays g q)
                 \<and> value_changed_events g' = Suc (value_changed_events g)"
    using assms by (simp add: addCheckboxToValue_result del: set_value.simps)
next
  assume "v \<in> set (arrays g r)"
  then show "\<exists>g'. removeCheckboxFromValue (set_value (Suc n)) v g = Inr g'
                 \<and> grp_value g' = Array (next_array g) \<and> next_array g \<noteq> r
                 \<and> arrays g' (next_array g) = filter (\<lambda>u. u \<noteq> v) (arrays g r)
                 \<and> (\<forall>q < next_array g. arrays g' q = arrays g q)
                 \<and> value_changed_events g' = Suc (value_changed_events g)"
    using assms by (simp add: removeCheckboxFromValue_result del: set_value.simps)
qed

text \<open>
  On the example: adding \<open>v1\<close> and removing \<open>v2\<close> change nothing; adding \<open>v2\<close> and
  removing \<open>v1\<close> put a new array at reference 1 and leave the one at 0 as it was.
\<close>

theorem value_mutators_set_semantics_witness:
  "addCheckboxToValue (set_value 0) ''v1'' example_group = Inr example_group
   \<and> removeCheckboxFromValue (set_value 0) ''v2'' example_group = Inr example_group
   \<and> (\<exists>g'. addCheckboxToValue (set_value (Suc 0)) ''v2'' example_group = Inr g'
          \<and> grp_value g' = Array 1 \<and> arrays g' 1 = [''v0'', ''v1'', ''v3'', ''v2'']
          \<and> arrays g' 0 = [''v0'', ''v1'', ''v3'']
          \<and> value_changed_events g' = 1)
   \<and> (\<exists>g'. removeCheckboxFromValue (set_value (Suc 0)) ''v1'' example_group = Inr g'
          \<and> grp_value g' = Array 1 \<and> arrays g' 1 = [''v0'', ''v3'']
          \<and> arrays g' 0 = [''v0'', ''v1'', ''v3'']
          \<and> value_changed_events g' = 1)"
  using value_mutators_set_semantics [where g = example_group and r = 0 and v = "''v1''" and n = 0]
    value_mutators_set_semantics [where g = example_group and r = 0 and v = "''v2''" and n = 0]
  by (auto simp: example_group_facts simp del: set_value.simps)

text \<open>
  Claim C7, as stated, fails for a checkbox that has no \<^verbatim>\<open>value\<close> attribute but whose
  \<^verbatim>\<open>value\<close> property was set: the test of \<^verbatim>\<open>__warnOfCheckboxesWithoutValue\<close> also asks
  for the property to be empty or \<open>on\<close>. The batch that adds the checkbox \<open>foo\<close> of the
  example completes with nothing written to the console.
\<close>

theorem warning_without_attribute_counterexample:
  "is_checkbox (nodes example_group 3) \<and> \<not> has_value_attr (nodes example_group 3)
   \<and> map_sum id console (slot_observer_callback (Suc 0) [3] [] example_group) = Inr []"
  by (simp add: example_group_def example_checkbox_def slot_observer_callback_def filterCheckboxes_def
        registerCheckbox_def warnOfCheckboxesWithoutValue_def checkboxes_def Let_def)

text \<open>
  Claim C7, amended. Let \<^verbatim>\<open>value\<close> hold an allocated array. Registering a checkbox, with or
  without a \<^verbatim>\<open>value\<close> attribute, does not throw: afterwards the group's listener is attached
  to it, its value is what it was, and it is checked exactly when that value is in the
  group's array. A batch of added and removed nodes does not throw either, and it writes the
  warning to the console, once, exactly when some added checkbox has no \<^verbatim>\<open>value\<close>
  attribute and a \<^verbatim>\<open>value\<close> property that is empty or \<open>on\<close>.
\<close>

theorem registration_without_value_attribute:
  assumes "grp_value g = Array r" and "r < next_array g"
  shows "(\<exists>g' r'. registerCheckbox (Suc n) c g = Inr g'
            \<and> checked_changed_listener (nodes g' c)
            \<and> cb_value (nodes g' c) = cb_value (nodes g c)
            \<and> grp_value g' = Array r'
            \<and> (cb_checked (nodes g' c) \<longleftrightarrow> cb_value (nodes g c) \<in> set (arrays g' r')))
       \<and> (\<exists>g'. slot_observer_callback (Suc n) addedNodes removedNodes g = Inr g'
            \<and> console g' =
               (if \<exists>a \<in> set addedNodes. is_checkbox (nodes g a) \<and> \<not> has_value_attr (nodes g a)
                      \<and> (cb_value (nodes g a) = [] \<or> cb_value (nodes g a) = ''on'')
                then console g @ [without_value_warning] else console g))"
proof
  from registerCheckbox_result [OF assms, of n c]
  obtain g' r' where res: "registerCheckbox (Suc n) c g = Inr g'" "grp_value g' = Array r'"
    "arrays g' r' = (if cb_checked (nodes g c) \<and> cb_value (nodes g c) \<notin> set (arrays g r)
                              then arrays g r @ [cb_value (nodes g c)] else arrays g r)"
    "cb_checked (nodes g' c) \<longleftrightarrow> cb_checked (nodes g c) \<or> cb_value (nodes g c) \<in> set (arrays g r)"
    "cb_value (nodes g' c) = cb_value (nodes g c)"
    "checked_changed_listener (nodes g' c)"
    by blast
  show "\<exists>g' r'. registerCheckbox (Suc n) c g = Inr g'
            \<and> checked_changed_listener (nodes g' c)
            \<and> cb_value (nodes g' c) = cb_value (nodes g c)
            \<and> grp_value g' = Array r'
            \<and> (cb_checked (nodes g' c) \<longleftrightarrow> cb_value (nodes g c) \<in> set (arrays g' r'))"
    apply (rule exI [of _ g'], rule exI [of _ r'])
    using res by auto
next
  show "\<exists>g'. slot_observer_callback (Suc n) addedNodes removedNodes g = Inr g'
            \<and> console g' =
               (if \<exists>a \<in> set addedNodes. is_checkbox (nodes g a) \<and> \<not> has_value_attr (nodes g a)
                      \<and> (cb_value (nodes g a) = [] \<or> cb_value (nodes g a) = ''on'')
                then console g @ [without_value_warning] else console g)"
    by (rule slot_observer_callback_result [OF assms])
qed

text \<open>
  On the example, the checkbox without attribute and with the default value is registered,
  and the batch that adds it writes the warning.
\<close>

theorem registration_without_value_attribute_witness:
  "(\<exists>g' r'. registerCheckbox (Suc 0) 2 example_group = Inr g'
        \<and> checked_changed_listener (nodes g' 2) \<and> cb_value (nodes g' 2) = ''on'')
   \<and> (\<exists>g'. slot_observer_callback (Suc 0) [2] [] example_group = Inr g'
        \<and> console g' = [without_value_warning])"
  using registration_without_value_attribute [where g = example_group and r = 0 and c = 2 and n = 0
          and addedNodes = "[2]" and removedNodes = "[]"]
  by (auto simp: example_group_facts simp del: set_value.simps)

text \<open>
  Claim C8. Let \<^verbatim>\<open>value\<close> hold an allocated array. Unregistering a checked checkbox does not
  throw, and afterwards \<^verbatim>\<open>value\<close> holds an array with the old contents minus the checkbox's
  value, the other members in their old order. Every array that existed before, the
  previous value among them, keeps its contents; when the value was a member, the array
  held afterwards is a newly allocated one.
\<close>

theorem unregister_removes_value:
  assumes "grp_value g = Array r" and "r < next_array g" and "cb_checked (nodes g c)"
  shows "\<exists>g' r'. unregisterCheckbox (Suc n) c g = Inr g'
           \<and> grp_value g' = Array r'
           \<and> arrays g' r' = filter (\<lambda>u. u \<noteq> cb_value (nodes g c)) (arrays g r)
           \<and> (cb_value (nodes g c) \<in> set (arrays g r) \<longrightarrow> r' = next_array g \<and> r' \<noteq> r)
           \<and> (\<forall>q < next_array g. arrays g' q = arrays g q)"
  using unregisterCheckbox_result [OF assms(1,2), of n c] assms(2,3) by auto

text \<open>On the example, unregistering the checkbox \<open>v1\<close> leaves \<open>[v0, v3]\<close> in a new array.\<close>

theorem unregister_removes_value_witness:
  "\<exists>g' r'. unregisterCheckbox (Suc 0) 0 example_group = Inr g'
      \<and> grp_value g' = Array r' \<and> arrays g' r' = [''v0'', ''v3''] \<and> r' = 1
      \<and> arrays g' 0 = [''v0'', ''v1'', ''v3'']"
  using unregister_removes_value [where g = example_group and r = 0 and c = 0 and n = 0]
  by (auto simp: example_group_facts simp del: set_value.simps)

text \<open>
  Claim C9. Let \<^verbatim>\<open>value\<close> hold an allocated array. Registering a checkbox does not throw and
  keeps the checkbox's value. If the checkbox was checked, it stays checked and its value is
  appended to the group's array unless it was a member. If it was not checked, the array is
  unchanged and the checkbox becomes checked if its value is a member. In both cases, right
  after registration the checkbox is checked exactly when its value is in the group's array.
\<close>

theorem registration_synchronizes:
  assumes "grp_value g = Array r" and "r < next_array g"
  shows "\<exists>g' r'. registerCheckbox (Suc n) c g = Inr g' \<and> grp_value g' = Array r'
           \<and> cb_value (nodes g' c) = cb_value (nodes g c)
           \<and> (cb_checked (nodes g c) \<longrightarrow>
                 cb_checked (nodes g' c)
                 \<and> arrays g' r' = (if cb_value (nodes g c) \<in> set (arrays g r) then arrays g r
                                   else arrays g r @ [cb_value (nodes g c)]))
           \<and> (\<not> cb_checked (nodes g c) \<longrightarrow>
                 arrays g' r' = arrays g r
                 \<and> (cb_value (nodes g c) \<in> set (arrays g r) \<longrightarrow> cb_checked (nodes g' c)))
           \<and> (cb_checked (nodes g' c) \<longleftrightarrow> cb_value (nodes g' c) \<in> set (arrays g' r'))"
proof -
  from registerCheckbox_result [OF assms, of n c]
  obtain g' r' where res: "registerCheckbox (Suc n) c g = Inr g'" "grp_value g' = Array r'"
    "arrays g' r' = (if cb_checked (nodes g c) \<and> cb_value (nodes g c) \<notin> set (arrays g r)
                              then arrays g r @ [cb_value (nodes g c)] else arrays g r)"
    "cb_checked (nodes g' c) \<longleftrightarrow> cb_checked (nodes g c) \<or> cb_value (nodes g c) \<in> set (arrays g r)"
    "cb_value (nodes g' c) = cb_value (nodes g c)"
    by blast
  show ?thesis
    apply (rule exI [of _ g'], rule exI [of _ r'])
    using res by auto
qed

text \<open>
  On the example: the checked \<open>v2\<close> enters the array; the unchecked \<open>v3\<close>, a member, becomes
  checked; the unchecked \<open>on\<close>, no member, stays unchecked.
\<close>

theorem registration_synchronizes_witness:
  "(\<exists>g' r'. registerCheckbox (Suc 0) 1 example_group = Inr g' \<and> grp_value g' = Array r'
        \<and> cb_checked (nodes g' 1) \<and> arrays g' r' = [''v0'', ''v1'', ''v3'', ''v2''])
   \<and> (\<exists>g' r'. registerCheckbox (Suc 0) 4 example_group = Inr g' \<and> grp_value g' = Array r'
        \<and> cb_checked (nodes g' 4) \<and> arrays g' r' = [''v0'', ''v1'', ''v3''])
   \<and> (\<exists>g' r'. registerCheckbox (Suc 0) 2 example_group = Inr g' \<and> grp_value g' = Array r'
        \<and> \<not> cb_checked (nodes g' 2) \<and> arrays g' r' = [''v0'', ''v1'', ''v3''])"
proof (intro conjI)
  show "\<exists>g' r'. registerCheckbox (Suc 0) 1 example_group = Inr g' \<and> grp_value g' = Array r'
        \<and> cb_checked (nodes g' 1) \<and> arrays g' r' = [''v0'', ''v1'', ''v3'', ''v2'']"
    using registration_synchronizes [where g = example_group and r = 0 and c = 1 and n = 0]
    by (auto simp: example_group_facts simp del: set_value.simps)
  show "\<exists>g' r'. registerCheckbox (Suc 0) 4 example_group = Inr g' \<and> grp_value g' = Array r'
        \<and> cb_checked (nodes g' 4) \<and> arrays g' r' = [''v0'', ''v1'', ''v3'']"
    using registration_synchronizes [where g = example_group and r = 0 and c = 4 and n = 0]
    by (auto simp: example_group_facts simp del: set_value.simps)
  show "\<exists>g' r'. registerCheckbox (Suc 0) 2 example_group = Inr g' \<and> grp_value g' = Array r'
        \<and> \<not> cb_checked (nodes g' 2) \<and> arrays g' r' = [''v0'', ''v1'', ''v3'']"
    using registration_synchronizes [where g = example_group and r = 0 and c = 2 and n = 0]
    by (auto simp: example_group_facts simp del: set_value.simps)
qed

text \<open>
  Claim C10. The observer \<^verbatim>\<open>__valueChanged\<close> ends with a \<^verbatim>\<open>TypeError\<close> when its first
  argument is \<^verbatim>\<open>null\<close> or \<^verbatim>\<open>undefined\<close>, whatever the old value and the group. So
  assigning \<^verbatim>\<open>null\<close> or \<^verbatim>\<open>undefined\<close> to the \<^verbatim>\<open>value\<close> of a group that holds an array,
  which runs the observer, ends with that \<^verbatim>\<open>TypeError\<close>.
\<close>

theorem value_null_or_undefined_throws:
  "valueChanged assign Null oldValue g = Inl TypeError
   \<and> valueChanged assign Undefined oldValue g = Inl TypeError
   \<and> set_value (Suc n) Null (g\<lparr>grp_value := Array r\<rparr>) = Inl TypeError
   \<and> set_value (Suc n) Undefined (g\<lparr>grp_value := Array r\<rparr>) = Inl TypeError"
  by (simp add: valueChanged_def)

text \<open>On the example group, whose value is the array at 0.\<close>

theorem value_null_or_undefined_throws_witness:
  "set_value (Suc 0) Null example_group = Inl TypeError
   \<and> set_value (Suc 0) Undefined example_group = Inl TypeError"
  using value_null_or_undefined_throws [of "set_value 0" "Array 0" example_group 0 0]
  by (simp add: example_group_def valueChanged_def)

end
